theory Spec2Isabelle
  imports Complex_Main
begin

section \<open>Values\<close>

text \<open>
  The program handles parsed JSON documents and Python's \<open>None\<close>. A parsed JSON
  \<open>null\<close> is \<open>None\<close>, so one constructor stands for both. An object is an
  association list in insertion order (keys are distinct in a parsed document; lookup
  takes the first binding). Numbers are integers or (finite) fractional values.
\<close>

datatype json =
    JNull
  | JBool bool
  | JInt int
  | JFloat rat
  | JStr string
  | JList "json list"
  | JObject "(string \<times> json) list"

text \<open>The exceptions the modelled code can raise.\<close>

datatype py_error =
    ValueError
  | AttributeError
  | TypeError
  | KeyError
  | IndexError
  | UnboundLocalError
  | RequestException
  | JSONDecodeError

text \<open>Python truth value (\<open>if x\<close>, \<open>not x\<close>).\<close>

fun truthy :: "json \<Rightarrow> bool" where
  "truthy JNull = False"
| "truthy (JBool b) = b"
| "truthy (JInt i) = (i \<noteq> 0)"
| "truthy (JFloat r) = (r \<noteq> 0)"
| "truthy (JStr s) = (s \<noteq> [])"
| "truthy (JList xs) = (xs \<noteq> [])"
| "truthy (JObject m) = (m \<noteq> [])"

text \<open>\<open>isinstance(x, list)\<close>, \<open>isinstance(x, dict)\<close>, \<open>isinstance(x, str)\<close>.\<close>

fun is_list :: "json \<Rightarrow> bool" where
  "is_list (JList xs) = True"
| "is_list _ = False"

fun is_dict :: "json \<Rightarrow> bool" where
  "is_dict (JObject m) = True"
| "is_dict _ = False"

fun is_str :: "json \<Rightarrow> bool" where
  "is_str (JStr s) = True"
| "is_str _ = False"

text \<open>
  \<open>x.get(k)\<close> and \<open>x.get(k, d)\<close>: only a dict has the method; on anything else the
  attribute lookup raises AttributeError.
\<close>

fun py_get_default :: "json \<Rightarrow> string \<Rightarrow> json \<Rightarrow> py_error + json" where
  "py_get_default (JObject m) k d = Inr (case map_of m k of None \<Rightarrow> d | Some v \<Rightarrow> v)"
| "py_get_default _ k d = Inl AttributeError"

definition py_get :: "json \<Rightarrow> string \<Rightarrow> py_error + json" where
  "py_get x k = py_get_default x k JNull"

text \<open>
  \<open>x[k]\<close> with a string key: KeyError on a dict without the key, TypeError on a
  list, a string, a number, a boolean or None.
\<close>

fun py_item :: "json \<Rightarrow> string \<Rightarrow> py_error + json" where
  "py_item (JObject m) k = (case map_of m k of None \<Rightarrow> Inl KeyError | Some v \<Rightarrow> Inr v)"
| "py_item _ k = Inl TypeError"

text \<open>
  \<open>x[0]\<close>: the first element of a list or the first character of a string
  (IndexError when empty), KeyError on a dict (its keys are strings), TypeError
  otherwise.
\<close>

fun py_index0 :: "json \<Rightarrow> py_error + json" where
  "py_index0 (JList []) = Inl IndexError"
| "py_index0 (JList (x # xs)) = Inr x"
| "py_index0 (JStr []) = Inl IndexError"
| "py_index0 (JStr (c # cs)) = Inr (JStr [c])"
| "py_index0 (JObject m) = Inl KeyError"
| "py_index0 _ = Inl TypeError"

text \<open>
  \<open>for v in x\<close>: the elements of a list, the characters of a string, the keys of a
  dict; TypeError on a value that is not iterable.
\<close>

fun py_iter :: "json \<Rightarrow> py_error + json list" where
  "py_iter (JList xs) = Inr xs"
| "py_iter (JStr s) = Inr (map (\<lambda>c. JStr [c]) s)"
| "py_iter (JObject m) = Inr (map (\<lambda>kv. JStr (fst kv)) m)"
| "py_iter _ = Inl TypeError"

text \<open>\<open>x.startswith(p)\<close>: a string method; AttributeError on anything else.\<close>

fun startswith :: "string \<Rightarrow> string \<Rightarrow> bool" where
  "startswith s [] = True"
| "startswith [] (p # ps) = False"
| "startswith (c # cs) (p # ps) = (c = p \<and> startswith cs ps)"

fun py_startswith :: "json \<Rightarrow> string \<Rightarrow> py_error + bool" where
  "py_startswith (JStr s) p = Inr (startswith s p)"
| "py_startswith _ p = Inl AttributeError"

text \<open>\<open>a + b\<close> with \<open>a\<close> a string: TypeError unless \<open>b\<close> is a string too.\<close>

fun str_concat :: "string \<Rightarrow> json \<Rightarrow> py_error + string" where
  "str_concat a (JStr b) = Inr (a @ b)"
| "str_concat a _ = Inl TypeError"

text \<open>
  \<open>str(x)\<close>, as an f-string applies it: a string is itself and None is
  \<open>None\<close>. How Python prints numbers, booleans, lists and dicts is the
  language's; it is the parameter \<open>repr\<close>.
\<close>

definition py_str :: "(json \<Rightarrow> string) \<Rightarrow> json \<Rightarrow> string" where
  "py_str repr x = (case x of JStr s \<Rightarrow> s | JNull \<Rightarrow> ''None'' | other \<Rightarrow> repr other)"

section \<open>Graph Normalizer\<close>

text \<open>
  \<open>ensure_dict\<close>: the loop unwraps while the object is a list. The counter
  \<open>depth\<close> starts at 0, grows by one per unwrapping and is only printed.
\<close>

fun unwrap :: "nat \<Rightarrow> json \<Rightarrow> json" where
  "unwrap depth (JList []) = JNull"
| "unwrap depth (JList (x # xs)) = unwrap (depth + 1) x"
| "unwrap depth (JObject m) = JObject m"
| "unwrap depth JNull = JNull"
| "unwrap depth (JBool b) = JNull"
| "unwrap depth (JInt i) = JNull"
| "unwrap depth (JFloat r) = JNull"
| "unwrap depth (JStr s) = JNull"

definition ensure_dict :: "json \<Rightarrow> json" where
  "ensure_dict obj = unwrap 0 obj"

text \<open>A value wrapped \<open>n\<close> times in a one-element list.\<close>

fun nest :: "nat \<Rightarrow> json \<Rightarrow> json" where
  "nest 0 x = x"
| "nest (Suc n) x = JList [nest n x]"

section \<open>Network and effects\<close>

text \<open>
  The model server answers a request with a status code and a body, or the
  transport fails (\<open>None\<close>: the call of the HTTP library raises). A body that is
  not JSON is \<open>None\<close>: \<open>response.json()\<close> raises on it. The answers of the
  server do not change during one operation (a commit is an immutable snapshot).
\<close>

datatype request = GET string | POST string json

datatype http_response = HttpResponse (status_code: nat) (body: "json option")

type_synonym server = "request \<Rightarrow> http_response option"

text \<open>
  A computation returns a value or raises, and records the requests it sent, in
  order.
\<close>

type_synonym 'a io = "(py_error + 'a) \<times> request list"

definition ret :: "'a \<Rightarrow> 'a io" where
  "ret x = (Inr x, [])"

definition raise :: "py_error \<Rightarrow> 'a io" where
  "raise e = (Inl e, [])"

definition lift :: "py_error + 'a \<Rightarrow> 'a io" where
  "lift r = (r, [])"

definition bind :: "'a io \<Rightarrow> ('a \<Rightarrow> 'b io) \<Rightarrow> 'b io" where
  "bind m f =
     (case fst m of
        Inl e \<Rightarrow> (Inl e, snd m)
      | Inr x \<Rightarrow> (fst (f x), snd m @ snd (f x)))"

text \<open>\<open>try: m except Exception: h\<close>.\<close>

definition try_except :: "'a io \<Rightarrow> (py_error \<Rightarrow> 'a io) \<Rightarrow> 'a io" where
  "try_except m h =
     (case fst m of
        Inl e \<Rightarrow> (fst (h e), snd m @ snd (h e))
      | Inr x \<Rightarrow> (Inr x, snd m))"

text \<open>
  A \<open>for\<close> loop whose body either falls through to the next element
  (\<open>None\<close>, also on \<open>continue\<close>) or returns from the enclosing function
  (\<open>Some v\<close>); an exception leaves the loop.
\<close>

fun for_loop :: "('a \<Rightarrow> 'b option io) \<Rightarrow> 'a list \<Rightarrow> 'b option io" where
  "for_loop f [] = (Inr None, [])"
| "for_loop f (x # xs) =
     (case fst (f x) of
        Inl e \<Rightarrow> (Inl e, snd (f x))
      | Inr (Some v) \<Rightarrow> (Inr (Some v), snd (f x))
      | Inr None \<Rightarrow> (fst (for_loop f xs), snd (f x) @ snd (for_loop f xs)))"

definition session_get :: "server \<Rightarrow> string \<Rightarrow> http_response io" where
  "session_get srv url =
     (case srv (GET url) of
        None \<Rightarrow> (Inl RequestException, [GET url])
      | Some r \<Rightarrow> (Inr r, [GET url]))"

definition session_post :: "server \<Rightarrow> string \<Rightarrow> json \<Rightarrow> http_response io" where
  "session_post srv url payload =
     (case srv (POST url payload) of
        None \<Rightarrow> (Inl RequestException, [POST url payload])
      | Some r \<Rightarrow> (Inr r, [POST url payload]))"

definition response_json :: "http_response \<Rightarrow> py_error + json" where
  "response_json r = (case body r of None \<Rightarrow> Inl JSONDecodeError | Some j \<Rightarrow> Inr j)"

section \<open>Element Fetcher\<close>

text \<open>
  \<open>get_element_fromAPI\<close>. The whole body stands in a \<open>try\<close>; the handler and the
  branch of a status other than 200 only print, so the function ends without a
  \<open>return\<close> and gives None. The URL is built by \<open>+\<close>, which raises on an identity
  that is not a string. The diagnostic \<open>element.get('name')\<close> is evaluated before
  the element is returned.
\<close>

definition get_element_fromAPI :: "server \<Rightarrow> string \<Rightarrow> json \<Rightarrow> json io" where
  "get_element_fromAPI srv query_url element_id =
     try_except
       (bind (lift (str_concat (query_url @ ''/elements/'') element_id)) (\<lambda>url.
        bind (session_get srv url) (\<lambda>elements_response.
          if status_code elements_response = 200 then
            bind (lift (response_json elements_response)) (\<lambda>element.
              if is_list element then
                (if truthy element then lift (py_index0 element) else ret JNull)
              else
                bind (lift (py_get element ''name'')) (\<lambda>name. ret element))
          else ret JNull)))
       (\<lambda>e. ret JNull)"

section \<open>Operator Expression Decoder\<close>

text \<open>
  \<open>getValueFromOperatorExpressionUnit\<close>: one pass of the loop over
  \<open>opExp.get("ownedRelationship")\<close>. Nothing is caught here.
\<close>

definition opexp_step :: "server \<Rightarrow> string \<Rightarrow> json \<Rightarrow> json option io" where
  "opexp_step srv query_url relationship_id =
     bind (lift (py_item relationship_id ''@id'')) (\<lambda>rid.
     bind (get_element_fromAPI srv query_url rid) (\<lambda>relationship.
     bind (lift (py_get relationship ''@type'')) (\<lambda>rel_type.
     bind (if rel_type = JStr ''ParameterMembership''
           then bind (lift (py_get relationship ''memberName'')) (\<lambda>member_name.
                  ret (member_name = JStr ''x''))
           else ret False) (\<lambda>selected.
     if selected then
       bind (lift (py_item relationship ''memberElement'')) (\<lambda>member_ref.
       bind (lift (py_item member_ref ''@id'')) (\<lambda>member_id.
       bind (get_element_fromAPI srv query_url member_id) (\<lambda>memberElement.
       bind (lift (py_item memberElement ''ownedRelationship'')) (\<lambda>owned.
       bind (lift (py_index0 owned)) (\<lambda>first_owned.
       bind (lift (py_item first_owned ''@id'')) (\<lambda>fv_id.
       bind (get_element_fromAPI srv query_url fv_id) (\<lambda>featureValue.
       bind (lift (py_item featureValue ''memberElement'')) (\<lambda>value_ref.
       bind (lift (py_item value_ref ''@id'')) (\<lambda>value_id.
       bind (get_element_fromAPI srv query_url value_id) (\<lambda>v.
       ret (Some v)))))))))))
     else ret None))))"

definition getValueFromOperatorExpressionUnit :: "server \<Rightarrow> string \<Rightarrow> json \<Rightarrow> json io" where
  "getValueFromOperatorExpressionUnit srv query_url opExp =
     bind (lift (py_get opExp ''ownedRelationship'')) (\<lambda>owned.
     bind (lift (py_iter owned)) (\<lambda>relationship_ids.
     bind (for_loop (opexp_step srv query_url) relationship_ids) (\<lambda>returned.
     ret (case returned of None \<Rightarrow> JNull | Some v \<Rightarrow> v))))"

section \<open>Value Resolver\<close>

text \<open>
  The commit-scoped locator
  \<open>f"{server_url}/projects/{project_id}/commits/{commit_id}"\<close>.
\<close>

definition commit_url :: "(json \<Rightarrow> string) \<Rightarrow> json \<Rightarrow> json \<Rightarrow> json \<Rightarrow> string" where
  "commit_url repr server_url project_id commit_id =
     py_str repr server_url @ ''/projects/'' @ py_str repr project_id
       @ ''/commits/'' @ py_str repr commit_id"

text \<open>
  \<open>getFeatureValueFromFeature\<close>: one pass of the loop over the feature's
  \<open>ownedRelationship\<close>. \<open>None\<close> is \<open>continue\<close> or the end of the body,
  \<open>Some v\<close> is \<open>return v\<close>.
\<close>

definition feature_value_step :: "server \<Rightarrow> string \<Rightarrow> json \<Rightarrow> json option io" where
  "feature_value_step srv query_url relationship_ref =
     (let relationship_id = ensure_dict relationship_ref in
      if \<not> truthy relationship_id then ret None
      else
        bind (lift (py_get relationship_id ''@id'')) (\<lambda>rel_id.
        if \<not> truthy rel_id then ret None
        else
          bind (get_element_fromAPI srv query_url rel_id) (\<lambda>fetched.
          let relationship = ensure_dict fetched in
          if \<not> truthy relationship then ret None
          else
            bind (lift (py_get relationship ''@type'')) (\<lambda>rel_type.
            if rel_type = JStr ''FeatureValue'' then
              bind (lift (py_get_default relationship ''ownedRelatedElement'' (JList [])))
                (\<lambda>related_elements.
              if \<not> truthy related_elements then ret None
              else
                bind (lift (py_index0 related_elements)) (\<lambda>first_elem.
                let first_related = ensure_dict first_elem in
                if \<not> truthy first_related then ret None
                else
                  bind (lift (py_get first_related ''@id'')) (\<lambda>related_id.
                  if \<not> truthy related_id then ret None
                  else
                    bind (get_element_fromAPI srv query_url related_id) (\<lambda>fetched_value.
                    let featureValue = ensure_dict fetched_value in
                    if \<not> truthy featureValue then ret None
                    else
                      bind (lift (py_get featureValue ''@type'')) (\<lambda>fv_type.
                      if \<not> truthy fv_type then ret None
                      else
                        bind (lift (py_startswith fv_type ''Literal'')) (\<lambda>is_literal.
                        if is_literal then
                          bind (lift (py_get featureValue ''@id'')) (\<lambda>vid.
                          bind (lift (py_get featureValue ''value'')) (\<lambda>v.
                          ret (Some (JObject [(''value_id'', vid), (''value'', v)]))))
                        else if fv_type = JStr ''OperatorExpression'' then
                          bind (getValueFromOperatorExpressionUnit srv query_url featureValue)
                            (\<lambda>val.
                          bind (lift (py_get val ''@id'')) (\<lambda>vid.
                          bind (lift (py_get val ''value'')) (\<lambda>v.
                          ret (Some (JObject [(''value_id'', vid), (''value'', v)])))))
                        else ret None))))))
            else ret None))))"

text \<open>The body of the \<open>try\<close> block of \<open>getFeatureValueFromFeature\<close>.\<close>

definition getFeatureValueFromFeature_body ::
    "(json \<Rightarrow> string) \<Rightarrow> server \<Rightarrow> json \<Rightarrow> json \<Rightarrow> json \<Rightarrow> json \<Rightarrow> json io" where
  "getFeatureValueFromFeature_body repr srv server_url project_id commit_id feature_id =
     (let query_url = commit_url repr server_url project_id commit_id in
      bind (get_element_fromAPI srv query_url feature_id) (\<lambda>fetched.
      let feature = ensure_dict fetched in
      if \<not> truthy feature then ret JNull
      else
        bind (lift (py_get_default feature ''ownedRelationship'' (JList []))) (\<lambda>owned_rel.
        bind (lift (py_iter owned_rel)) (\<lambda>relationship_refs.
        bind (for_loop (feature_value_step srv query_url) relationship_refs) (\<lambda>returned.
        ret (case returned of None \<Rightarrow> JNull | Some v \<Rightarrow> v))))))"

text \<open>
  \<open>getFeatureValueFromFeature\<close>: the \<open>try\<close> block with its handler, which
  prints and returns None.
\<close>

definition getFeatureValueFromFeature ::
    "(json \<Rightarrow> string) \<Rightarrow> server \<Rightarrow> json \<Rightarrow> json \<Rightarrow> json \<Rightarrow> json \<Rightarrow> json io" where
  "getFeatureValueFromFeature repr srv server_url project_id commit_id feature_id =
     try_except
       (getFeatureValueFromFeature_body repr srv server_url project_id commit_id feature_id)
       (\<lambda>e. ret JNull)"

section \<open>Caller-facing operations\<close>

text \<open>
  What a route hands back: a text body, or a JSON error object with status 500,
  made from the exception or from a fixed message.
\<close>

datatype error_payload = ExceptionText py_error | Message string

datatype reply = Body string | JsonError error_payload nat

text \<open>The decorator \<open>handle_errors\<close>: any exception of the route becomes an error reply.\<close>

definition handle_errors :: "string io \<Rightarrow> reply \<times> request list" where
  "handle_errors m =
     (case fst m of
        Inl e \<Rightarrow> (JsonError (ExceptionText e) 500, snd m)
      | Inr text \<Rightarrow> (Body text, snd m))"

text \<open>
  The route \<open>queryFeatureValue\<close>, before the decorator. \<open>input_data\<close> is the
  parsed request. The local \<open>value\<close> is bound in two of the three branches only
  (\<open>None\<close> here: not assigned); reading it unbound raises UnboundLocalError. The
  f-string evaluates \<open>owner.get(...)\<close> before \<open>value\<close>.
\<close>

definition queryFeatureValue_route :: "(json \<Rightarrow> string) \<Rightarrow> server \<Rightarrow> json \<Rightarrow> string io" where
  "queryFeatureValue_route repr srv input_data =
     bind (lift (py_get input_data ''server_url'')) (\<lambda>server_url.
     bind (lift (py_get input_data ''project_id'')) (\<lambda>project_id.
     bind (lift (py_get input_data ''commit_id'')) (\<lambda>commit_id.
     bind (lift (py_get input_data ''element_id'')) (\<lambda>element_id.
     let query_url = commit_url repr server_url project_id commit_id in
     bind (get_element_fromAPI srv query_url element_id) (\<lambda>featureValue.
     bind (lift (py_get featureValue ''@type'')) (\<lambda>fv_type.
     bind (lift (py_startswith fv_type ''Literal'')) (\<lambda>is_literal.
     bind (if is_literal then
             bind (lift (py_get_default featureValue ''value'' (JStr []))) (\<lambda>v. ret (Some v))
           else if fv_type = JStr ''OperatorExpression'' then
             bind (getValueFromOperatorExpressionUnit srv query_url featureValue) (\<lambda>v.
               ret (Some v))
           else ret None) (\<lambda>value.
     bind (lift (py_get featureValue ''owner'')) (\<lambda>owner_ref.
     bind (lift (py_get owner_ref ''@id'')) (\<lambda>owner_id.
     bind (get_element_fromAPI srv query_url owner_id) (\<lambda>owner.
     bind (lift (py_get_default owner ''name'' (JStr ''Unknown Owner''))) (\<lambda>name.
     case value of
       None \<Rightarrow> raise UnboundLocalError
     | Some v \<Rightarrow> ret (py_str repr name @ ''='' @ py_str repr v)))))))))))))"

definition queryFeatureValue :: "(json \<Rightarrow> string) \<Rightarrow> server \<Rightarrow> json \<Rightarrow> reply \<times> request list" where
  "queryFeatureValue repr srv input_data =
     handle_errors (queryFeatureValue_route repr srv input_data)"

section \<open>Metadata/Annotation Locator\<close>

text \<open>
  Python's \<open>==\<close> on parsed JSON: booleans and numbers compare by value
  (\<open>True == 1\<close>, \<open>1 == 1.0\<close>), lists elementwise, dicts by their keys and
  values whatever the order, and values of different kinds are unequal.
\<close>

fun num_value :: "json \<Rightarrow> rat option" where
  "num_value (JBool b) = Some (if b then 1 else 0)"
| "num_value (JInt i) = Some (of_int i)"
| "num_value (JFloat r) = Some r"
| "num_value _ = None"

fun py_eq :: "json \<Rightarrow> json \<Rightarrow> bool"
  and py_eq_list :: "json list \<Rightarrow> json list \<Rightarrow> bool"
  and py_eq_items :: "(string \<times> json) list \<Rightarrow> (string \<times> json) list \<Rightarrow> bool" where
  "py_eq JNull y = (y = JNull)"
| "py_eq (JBool b) y = (num_value y = Some (if b then 1 else 0))"
| "py_eq (JInt i) y = (num_value y = Some (of_int i))"
| "py_eq (JFloat r) y = (num_value y = Some r)"
| "py_eq (JStr s) y = (y = JStr s)"
| "py_eq (JList xs) y = (case y of JList ys \<Rightarrow> py_eq_list xs ys | _ \<Rightarrow> False)"
| "py_eq (JObject m) y =
     (case y of JObject n \<Rightarrow> length m = length n \<and> py_eq_items m n | _ \<Rightarrow> False)"
| "py_eq_list [] ys = (ys = [])"
| "py_eq_list (x # xs) ys =
     (case ys of [] \<Rightarrow> False | y # ys' \<Rightarrow> py_eq x y \<and> py_eq_list xs ys')"
| "py_eq_items [] n = True"
| "py_eq_items ((k, v) # m) n =
     (case map_of n k of None \<Rightarrow> False | Some w \<Rightarrow> py_eq v w \<and> py_eq_items m n)"

text \<open>A loop that updates a state and stops at the first exception.\<close>

fun fold_err :: "('a \<Rightarrow> 's \<Rightarrow> py_error + 's) \<Rightarrow> 'a list \<Rightarrow> 's \<Rightarrow> py_error + 's" where
  "fold_err f [] s = Inr s"
| "fold_err f (x # xs) s = (case f x s of Inl e \<Rightarrow> Inl e | Inr s' \<Rightarrow> fold_err f xs s')"

text \<open>
  The result dict, for every key a list of identities: \<open>results[key].append(x)\<close>.
  The keys are those of the input dict, of any hashable type.
\<close>

definition append_to :: "'k \<Rightarrow> json \<Rightarrow> ('k \<times> json list) list \<Rightarrow> ('k \<times> json list) list" where
  "append_to key x results = map (\<lambda>(k, ids). if k = key then (k, ids @ [x]) else (k, ids)) results"

text \<open>The query document sent for all MetadataUsage elements.\<close>

definition metadatausage_query :: json where
  "metadatausage_query =
     JObject [(''@type'', JStr ''Query''),
              (''where'', JObject [(''@type'', JStr ''PrimitiveConstraint''),
                                   (''inverse'', JBool False),
                                   (''operator'', JStr ''=''),
                                   (''property'', JStr ''@type''),
                                   (''value'', JList [JStr ''MetadataUsage''])])]"

text \<open>
  \<open>get_metadatausage_annotatedElement_ids\<close>, innermost first: the loop over the
  annotated elements of a matching usage, the body of the loop over the entries of
  the input dict (with its diagnostic loop, which calls \<open>annotated.get\<close> for every
  entry, matching or not), and the body of the loop over the usages.
\<close>

definition collect_annotated :: "'k \<Rightarrow> json \<Rightarrow> ('k \<times> json list) list \<Rightarrow> py_error + ('k \<times> json list) list" where
  "collect_annotated key annotated results =
     (case py_get annotated ''@id'' of
        Inl e \<Rightarrow> Inl e
      | Inr annotated_id \<Rightarrow>
          Inr (if truthy annotated_id then append_to key annotated_id results else results))"

definition usage_entry ::
    "json \<Rightarrow> json \<Rightarrow> 'k \<times> json \<Rightarrow> ('k \<times> json list) list \<Rightarrow> py_error + ('k \<times> json list) list" where
  "usage_entry item metadata_id entry results =
     (case py_get_default item ''annotatedElement'' (JList []) of
        Inl e \<Rightarrow> Inl e
      | Inr annotated_elements \<Rightarrow>
          (case (if truthy annotated_elements \<and> is_list annotated_elements
                 then (case py_iter annotated_elements of
                         Inl e \<Rightarrow> Inl e
                       | Inr xs \<Rightarrow> fold_err (\<lambda>annotated u. case py_get annotated ''name'' of
                                                           Inl e \<Rightarrow> Inl e | Inr n \<Rightarrow> Inr u) xs ())
                 else Inr ()) of
             Inl e \<Rightarrow> Inl e
           | Inr u \<Rightarrow>
               if py_eq metadata_id (snd entry) then
                 (if truthy annotated_elements then
                    (if is_list annotated_elements then
                       (case py_iter annotated_elements of
                          Inl e \<Rightarrow> Inl e
                        | Inr xs \<Rightarrow> fold_err (collect_annotated (fst entry)) xs results)
                     else if is_dict annotated_elements then
                       collect_annotated (fst entry) annotated_elements results
                     else Inr results)
                  else
                    (case py_get item ''@id'' of
                       Inl e \<Rightarrow> Inl e
                     | Inr item_id \<Rightarrow> Inr (append_to (fst entry) item_id results)))
               else Inr results))"

definition usage_item ::
    "('k \<times> json) list \<Rightarrow> json \<Rightarrow> ('k \<times> json list) list \<Rightarrow> py_error + ('k \<times> json list) list" where
  "usage_item metadefinition_dict item results =
     (case py_get item ''metadataDefinition'' of
        Inl e \<Rightarrow> Inl e
      | Inr metadata \<Rightarrow>
          (case (if is_dict metadata then py_get metadata ''@id'' else Inr (JStr ''Unknown'')) of
             Inl e \<Rightarrow> Inl e
           | Inr metadata_id \<Rightarrow>
               fold_err (usage_entry item metadata_id) metadefinition_dict results))"

definition get_metadatausage_annotatedElement_ids ::
    "server \<Rightarrow> string \<Rightarrow> ('k \<times> json) list \<Rightarrow> ('k \<times> json list) list io" where
  "get_metadatausage_annotatedElement_ids srv query_url metadefinition_dict =
     bind (session_post srv query_url metadatausage_query) (\<lambda>query_response.
     if status_code query_response \<noteq> 200 then raise ValueError
     else
       bind (lift (response_json query_response)) (\<lambda>query_response_json.
       if \<not> truthy query_response_json \<or> \<not> is_list query_response_json then ret []
       else
         bind (lift (py_iter query_response_json)) (\<lambda>items.
         lift (fold_err (usage_item metadefinition_dict) items
                 (map (\<lambda>entry. (fst entry, [])) metadefinition_dict)))))"

section \<open>Tabular output\<close>

text \<open>
  The CSV writer of the standard library with its defaults: fields joined by a
  comma, a line ended by CR LF, a field quoted only when it holds a comma, a double
  quote, a CR or a LF, a double quote inside doubled. None is written as the empty
  field, a string as it is, anything else through \<open>repr\<close>.
\<close>

definition fields :: "string list" where
  "fields = [''@id'', ''type'', ''name'', ''value'', ''value_id'', ''owner'']"

definition csv_text :: "(json \<Rightarrow> string) \<Rightarrow> json \<Rightarrow> string" where
  "csv_text repr x = (case x of JNull \<Rightarrow> [] | JStr s \<Rightarrow> s | other \<Rightarrow> repr other)"

definition csv_special :: "char \<Rightarrow> bool" where
  "csv_special ch = (ch \<in> set [CHR '','', CHR 0x22, CHR 0x0D, CHR 0x0A])"

definition csv_field :: "string \<Rightarrow> string" where
  "csv_field s =
     (if list_ex csv_special s
      then CHR 0x22 # concat (map (\<lambda>ch. if ch = CHR 0x22 then [ch, ch] else [ch]) s) @ [CHR 0x22]
      else s)"

fun join_fields :: "string list \<Rightarrow> string" where
  "join_fields [] = []"
| "join_fields [x] = x"
| "join_fields (x # y # ys) = x @ '','' @ join_fields (y # ys)"

text \<open>
  \<open>DictWriter.writerows\<close>: each row dict is laid out in the order of the field
  names (a missing key gives the empty field) and written as one line. Nothing else
  is written: \<open>writeheader\<close> is the method that writes the field names, and
  \<open>header_line\<close> is the line it would write.
\<close>

definition csv_line :: "(json \<Rightarrow> string) \<Rightarrow> (string \<times> json) list \<Rightarrow> string" where
  "csv_line repr row =
     join_fields
       (map (\<lambda>k. csv_field (csv_text repr (case map_of row k of None \<Rightarrow> JStr [] | Some v \<Rightarrow> v)))
          fields)
     @ [CHR 0x0D, CHR 0x0A]"

definition writerows :: "(json \<Rightarrow> string) \<Rightarrow> (string \<times> json) list list \<Rightarrow> string" where
  "writerows repr rows = concat (map (csv_line repr) rows)"

definition header_line :: string where
  "header_line = join_fields (map csv_field fields) @ [CHR 0x0D, CHR 0x0A]"

text \<open>
  A loop that appends a row per element, unless the body skips the element
  (\<open>None\<close>); an exception leaves the loop.
\<close>

fun collect_rows :: "('a \<Rightarrow> 'b option io) \<Rightarrow> 'a list \<Rightarrow> 'b list io" where
  "collect_rows f [] = (Inr [], [])"
| "collect_rows f (x # xs) =
     (case fst (f x) of
        Inl e \<Rightarrow> (Inl e, snd (f x))
      | Inr r \<Rightarrow>
          (case fst (collect_rows f xs) of
             Inl e \<Rightarrow> (Inl e, snd (f x) @ snd (collect_rows f xs))
           | Inr rows \<Rightarrow>
               (Inr (case r of None \<Rightarrow> rows | Some row \<Rightarrow> row # rows),
                snd (f x) @ snd (collect_rows f xs))))"

text \<open>
  \<open>outputAttributesToCSV\<close>: one pass of the loop over the elements. In the inner
  \<open>try\<close> the fetched owner is assigned before the diagnostic that may raise, so
  the owner keeps what the fetch returned; the later \<open>owner.get\<close> of the row is
  outside that \<open>try\<close>.
\<close>

definition attribute_row ::
    "(json \<Rightarrow> string) \<Rightarrow> server \<Rightarrow> json \<Rightarrow> json \<Rightarrow> json \<Rightarrow> json \<Rightarrow> (string \<times> json) list option io" where
  "attribute_row repr srv server_url project_id commit_id element =
     (let item = ensure_dict element in
      if \<not> truthy item then ret None
      else
        bind (lift (py_get item ''@type'')) (\<lambda>item_type.
        if item_type \<noteq> JStr ''AttributeUsage'' then ret None
        else
          bind (lift (py_get item ''owner'')) (\<lambda>owner_ref.
          bind (if is_dict owner_ref then
                  (let query_url = commit_url repr server_url project_id commit_id in
                   try_except
                     (bind (lift (py_item item ''owner'')) (\<lambda>owner_dict.
                      bind (lift (py_get_default owner_dict ''@id'' (JStr []))) (\<lambda>owner_id.
                      get_element_fromAPI srv query_url owner_id)))
                     (\<lambda>e. ret (JObject [])))
                else ret (JObject [])) (\<lambda>owner.
          bind (lift (py_get item ''@id'')) (\<lambda>item_id.
          bind (getFeatureValueFromFeature repr srv server_url project_id commit_id item_id)
            (\<lambda>resolved.
          let featureValue = (if truthy resolved then resolved else JObject []) in
          bind (lift (py_get_default item ''@id'' (JStr []))) (\<lambda>row_id.
          bind (lift (py_get_default item ''@type'' (JStr []))) (\<lambda>row_type.
          bind (lift (py_get_default item ''name'' (JStr []))) (\<lambda>row_name.
          bind (lift (py_get_default featureValue ''value'' (JStr []))) (\<lambda>row_value.
          bind (lift (py_get_default featureValue ''value_id'' (JStr []))) (\<lambda>row_value_id.
          bind (lift (py_get_default owner ''declaredName'' (JStr []))) (\<lambda>row_owner.
          ret (Some [(''@id'', row_id), (''type'', row_type), (''name'', row_name),
                     (''value'', row_value), (''value_id'', row_value_id),
                     (''owner'', row_owner)])))))))))))))"

definition outputAttributesToCSV ::
    "(json \<Rightarrow> string) \<Rightarrow> server \<Rightarrow> json \<Rightarrow> json \<Rightarrow> json \<Rightarrow> json list \<Rightarrow> reply \<times> request list" where
  "outputAttributesToCSV repr srv server_url project_id commit_id elements =
     (let attempt =
            bind (collect_rows (attribute_row repr srv server_url project_id commit_id) elements)
              (\<lambda>csv_elements. ret (writerows repr csv_elements))
      in case fst attempt of
           Inl e \<Rightarrow> (JsonError (Message ''Failed to generate csv'') 500, snd attempt)
         | Inr csv_content \<Rightarrow> (Body csv_content, snd attempt))"

section \<open>Vocabulary of the statements\<close>

text \<open>The element an identity is fetched as (None when the fetch fails).\<close>

definition fetch :: "server \<Rightarrow> string \<Rightarrow> json \<Rightarrow> json" where
  "fetch srv query_url element_id =
     (case fst (get_element_fromAPI srv query_url element_id) of Inl e \<Rightarrow> JNull | Inr v \<Rightarrow> v)"

text \<open>
  The element a reference stub resolves to, the way the Value Resolver follows a
  stub: normalize the stub, read its \<open>@id\<close>, fetch, normalize; None when the stub
  has no usable identity or nothing usable is fetched.
\<close>

definition resolve_ref :: "server \<Rightarrow> string \<Rightarrow> json \<Rightarrow> json" where
  "resolve_ref srv query_url stub =
     (case py_get (ensure_dict stub) ''@id'' of
        Inl e \<Rightarrow> JNull
      | Inr i \<Rightarrow> if truthy i then ensure_dict (fetch srv query_url i) else JNull)"



text \<open>
  A relationship the Operator Expression Decoder selects: a ParameterMembership
  whose member name is \<open>x\<close>.
\<close>

definition is_x_parameter :: "json \<Rightarrow> bool" where
  "is_x_parameter relationship =
     (py_get relationship ''@type'' = Inr (JStr ''ParameterMembership'')
      \<and> py_get relationship ''memberName'' = Inr (JStr ''x''))"

text \<open>A row as the tabular output collects it: the six columns of an AttributeUsage.\<close>

definition attribute_shaped :: "(string \<times> json) list \<Rightarrow> bool" where
  "attribute_shaped row =
     (\<exists>a n v w ow. row = [(''@id'', a), (''type'', JStr ''AttributeUsage''), (''name'', n),
                           (''value'', v), (''value_id'', w), (''owner'', ow)])"

section \<open>A small model store\<close>

text \<open>
  A store with a feature \<open>f1\<close> whose value is the literal 42, a feature \<open>f2\<close>
  without a value, an operator expression \<open>e1\<close> with the operand \<open>ok\<close>,
  a feature \<open>bad\<close> whose relationship list is a number, and a feature \<open>f4\<close>
  with four FeatureValue relationships that do not decode: an empty
  \<open>ownedRelatedElement\<close>, a value element that is not in the store, one without
  \<open>@type\<close>, and one of the kind FeatureReferenceExpression. It serves the commit
  \<open>http://s/projects/p/commits/c\<close> and answers the metadata query.
\<close>

definition ref :: "string \<Rightarrow> json" where
  "ref i = JObject [(''@id'', JStr i)]"

definition demo_f1 :: "(string \<times> json) list" where
  "demo_f1 = [(''@id'', JStr ''f1''), (''@type'', JStr ''AttributeUsage''),
              (''name'', JStr ''mass''), (''owner'', ref ''o1''),
              (''ownedRelationship'', JList [ref ''r0'', ref ''r1''])]"

definition demo_r0 :: "(string \<times> json) list" where
  "demo_r0 = [(''@id'', JStr ''r0''), (''@type'', JStr ''Redefinition''),
              (''owner'', ref ''f1'')]"

definition demo_r1 :: "(string \<times> json) list" where
  "demo_r1 = [(''@id'', JStr ''r1''), (''@type'', JStr ''FeatureValue''),
              (''ownedRelatedElement'', JList [ref ''v1''])]"

definition demo_v1 :: "(string \<times> json) list" where
  "demo_v1 = [(''@id'', JStr ''v1''), (''@type'', JStr ''LiteralInteger''),
              (''value'', JInt 42), (''owner'', ref ''f1'')]"

definition demo_f2 :: "(string \<times> json) list" where
  "demo_f2 = [(''@id'', JStr ''f2''), (''@type'', JStr ''AttributeUsage''),
              (''name'', JStr ''length''), (''ownedRelationship'', JList [ref ''r0''])]"

definition demo_e1 :: "(string \<times> json) list" where
  "demo_e1 = [(''@id'', JStr ''e1''), (''@type'', JStr ''OperatorExpression''),
              (''ownedRelationship'', JList [ref ''r0'', ref ''pm1''])]"

definition demo_pm1 :: "(string \<times> json) list" where
  "demo_pm1 = [(''@id'', JStr ''pm1''), (''@type'', JStr ''ParameterMembership''),
               (''memberName'', JStr ''x''), (''memberElement'', ref ''par1'')]"

definition demo_par1 :: "(string \<times> json) list" where
  "demo_par1 = [(''@id'', JStr ''par1''), (''@type'', JStr ''Feature''),
                (''ownedRelationship'', JList [ref ''fv2''])]"

definition demo_fv2 :: "(string \<times> json) list" where
  "demo_fv2 = [(''@id'', JStr ''fv2''), (''@type'', JStr ''FeatureValue''),
               (''memberElement'', ref ''v2'')]"

definition demo_v2 :: "(string \<times> json) list" where
  "demo_v2 = [(''@id'', JStr ''v2''), (''@type'', JStr ''LiteralString''),
              (''value'', JStr ''ok'')]"

definition demo_o1 :: "(string \<times> json) list" where
  "demo_o1 = [(''@id'', JStr ''o1''), (''@type'', JStr ''PartUsage''),
              (''name'', JStr ''vehicle''), (''declaredName'', JStr ''vehicle'')]"

definition demo_bad :: "(string \<times> json) list" where
  "demo_bad = [(''@id'', JStr ''bad''), (''@type'', JStr ''AttributeUsage''),
               (''ownedRelationship'', JInt 5)]"

definition demo_f4 :: "(string \<times> json) list" where
  "demo_f4 = [(''@id'', JStr ''f4''), (''@type'', JStr ''AttributeUsage''),
              (''ownedRelationship'',
               JList [ref ''r4a'', ref ''r4b'', ref ''r4c'', ref ''r4d''])]"

definition demo_r4a :: "(string \<times> json) list" where
  "demo_r4a = [(''@id'', JStr ''r4a''), (''@type'', JStr ''FeatureValue''),
               (''ownedRelatedElement'', JList [])]"

definition demo_r4b :: "(string \<times> json) list" where
  "demo_r4b = [(''@id'', JStr ''r4b''), (''@type'', JStr ''FeatureValue''),
               (''ownedRelatedElement'', JList [ref ''gone''])]"

definition demo_r4c :: "(string \<times> json) list" where
  "demo_r4c = [(''@id'', JStr ''r4c''), (''@type'', JStr ''FeatureValue''),
               (''ownedRelatedElement'', JList [ref ''nt''])]"

definition demo_r4d :: "(string \<times> json) list" where
  "demo_r4d = [(''@id'', JStr ''r4d''), (''@type'', JStr ''FeatureValue''),
               (''ownedRelatedElement'', JList [ref ''fre''])]"

definition demo_nt :: "(string \<times> json) list" where
  "demo_nt = [(''@id'', JStr ''nt''), (''name'', JStr ''untyped'')]"

definition demo_fre :: "(string \<times> json) list" where
  "demo_fre = [(''@id'', JStr ''fre''), (''@type'', JStr ''FeatureReferenceExpression'')]"

definition demo_elements :: "(string \<times> json) list" where
  "demo_elements =
     [(''f1'', JObject demo_f1), (''r0'', JObject demo_r0), (''r1'', JObject demo_r1),
      (''v1'', JList [JObject demo_v1]), (''f2'', JObject demo_f2),
      (''e1'', JObject demo_e1), (''pm1'', JObject demo_pm1), (''par1'', JObject demo_par1),
      (''fv2'', JObject demo_fv2), (''v2'', JObject demo_v2), (''o1'', JObject demo_o1),
      (''bad'', JObject demo_bad), (''f4'', JObject demo_f4), (''r4a'', JObject demo_r4a),
      (''r4b'', JObject demo_r4b), (''r4c'', JObject demo_r4c), (''r4d'', JObject demo_r4d),
      (''nt'', JObject demo_nt), (''fre'', JObject demo_fre)]"

definition demo_usages :: json where
  "demo_usages =
     JList [JObject [(''@id'', JStr ''mu1''), (''@type'', JStr ''MetadataUsage''),
                     (''metadataDefinition'', ref ''md1''),
                     (''annotatedElement'', JList [ref ''o1''])],
            JObject [(''@id'', JStr ''mu2''), (''@type'', JStr ''MetadataUsage''),
                     (''metadataDefinition'', ref ''md1'')]]"

definition demo_server :: server where
  "demo_server r =
     (case r of
        GET url \<Rightarrow>
          (if startswith url ''http://s/projects/p/commits/c/elements/'' then
             (case map_of demo_elements (drop 39 url) of
                None \<Rightarrow> Some (HttpResponse 404 None)
              | Some j \<Rightarrow> Some (HttpResponse 200 (Some j)))
           else Some (HttpResponse 404 None))
      | POST url payload \<Rightarrow>
          (if url = ''http://s/projects/p/query-results?commitId=c''
           then Some (HttpResponse 200 (Some demo_usages))
           else None))"

text \<open>A request for the element \<open>i\<close> of the model store's commit.\<close>

definition demo_request :: "string \<Rightarrow> json" where
  "demo_request i =
     JObject [(''server_url'', JStr ''http://s''), (''project_id'', JStr ''p''),
              (''commit_id'', JStr ''c''), (''element_id'', JStr i)]"

text \<open>A server that answers every request with the same body.\<close>

definition constant_server :: "json \<Rightarrow> server" where
  "constant_server j r = Some (HttpResponse 200 (Some j))"

text \<open>A server that cannot be reached: every request fails in the transport.\<close>

definition unreachable_server :: server where
  "unreachable_server r = None"

text \<open>A server that answers every request with status 500 and no JSON.\<close>

definition error_server :: server where
  "error_server r = Some (HttpResponse 500 None)"

text \<open>
  A usage the locator can process: a mapping whose \<open>annotatedElement\<close>, when it
  is a list, holds mappings only.
\<close>

definition usage_well_shaped :: "json \<Rightarrow> bool" where
  "usage_well_shaped item =
     (is_dict item
      \<and> (case py_get_default item ''annotatedElement'' (JList []) of
             Inr (JList xs) \<Rightarrow> list_all is_dict xs
           | other \<Rightarrow> True))"

section \<open>Properties of the Graph Normalizer\<close>

lemma unwrap_any_depth: "unwrap d x = unwrap d' x"
proof (induction d x arbitrary: d' rule: unwrap.induct)
  case (2 depth x xs)
  have "unwrap (depth + 1) x = unwrap (d' + 1) x" by (rule 2)
  then show ?case by simp
qed simp_all

lemma unwrap_depth: "unwrap d x = unwrap 0 x"
  by (rule unwrap_any_depth)

lemma unwrap_cases: "unwrap d x = JNull \<or> (\<exists>m. unwrap d x = JObject m)"
  by (induction d x rule: unwrap.induct) simp_all

lemma unwrap_nest: "unwrap d (nest n x) = unwrap (d + n) x"
  by (induction n arbitrary: d) simp_all

text \<open>
  C8: the normalizer is idempotent: normalizing a normalized value gives the same
  value, for every input (mapping, nested lists, scalar or None).
\<close>

theorem ensure_dict_idempotent: "ensure_dict (ensure_dict x) = ensure_dict x"
proof -
  from unwrap_cases [of 0 x] show ?thesis
    by (auto simp: ensure_dict_def)
qed

text \<open>
  C2 (as the code has it): the normalizer unwraps a sequence by taking its first
  element, whatever follows it, and goes on with that element; an empty sequence
  gives None at any depth, a mapping is returned as it is and any other value gives
  None. There is no depth bound: a mapping wrapped in any number of one-element
  lists normalizes to that mapping, and the counter never changes the result.
\<close>

theorem ensure_dict_no_depth_bound:
  "ensure_dict (JList (x # xs)) = ensure_dict x
   \<and> ensure_dict (JList []) = JNull
   \<and> ensure_dict (JObject m) = JObject m
   \<and> ensure_dict JNull = JNull
   \<and> ensure_dict (JBool b) = JNull
   \<and> ensure_dict (JInt i) = JNull
   \<and> ensure_dict (JFloat r) = JNull
   \<and> ensure_dict (JStr s) = JNull
   \<and> ensure_dict (nest n (JObject m)) = JObject m
   \<and> ensure_dict (nest n (JList [])) = JNull
   \<and> unwrap d y = ensure_dict y"
proof -
  have first: "ensure_dict (JList (x # xs)) = ensure_dict x"
    using unwrap_depth [of 1 x] by (simp add: ensure_dict_def)
  have "unwrap 0 (nest n (JObject m)) = unwrap (0 + n) (JObject m)"
    by (rule unwrap_nest)
  then have deep: "ensure_dict (nest n (JObject m)) = JObject m"
    by (simp add: ensure_dict_def)
  have "unwrap 0 (nest n (JList [])) = unwrap (0 + n) (JList [])"
    by (rule unwrap_nest)
  then have deep_empty: "ensure_dict (nest n (JList [])) = JNull"
    by (simp add: ensure_dict_def)
  have depth: "unwrap d y = ensure_dict y"
    unfolding ensure_dict_def by (rule unwrap_depth)
  from first deep deep_empty depth show ?thesis
    by (simp add: ensure_dict_def)
qed

text \<open>
  C2 as stated fails: no depth exists beyond which every more deeply nested input
  normalizes to None.
\<close>

theorem ensure_dict_depth_bound_counterexample:
  "\<not> (\<exists>bound. \<forall>n > bound. ensure_dict (nest n (JObject [(''a'', JInt 1)])) = JNull)"
proof
  assume "\<exists>bound. \<forall>n > bound. ensure_dict (nest n (JObject [(''a'', JInt 1)])) = JNull"
  then obtain bound where
    b: "\<forall>n > bound. ensure_dict (nest n (JObject [(''a'', JInt 1)])) = JNull" ..
  have "unwrap 0 (nest (Suc bound) (JObject [(''a'', JInt 1)]))
        = unwrap (0 + Suc bound) (JObject [(''a'', JInt 1)])"
    by (rule unwrap_nest)
  then have "ensure_dict (nest (Suc bound) (JObject [(''a'', JInt 1)])) = JObject [(''a'', JInt 1)]"
    by (simp add: ensure_dict_def)
  moreover have "bound < Suc bound" by simp
  with b have "ensure_dict (nest (Suc bound) (JObject [(''a'', JInt 1)])) = JNull"
    by blast
  ultimately show False by simp
qed

section \<open>Basic facts about effects\<close>

lemma fst_ret [simp]: "fst (ret x) = Inr x"
  by (simp add: ret_def)

lemma snd_ret [simp]: "snd (ret x) = []"
  by (simp add: ret_def)

lemma fst_raise [simp]: "fst (raise e) = Inl e"
  by (simp add: raise_def)

lemma snd_raise [simp]: "snd (raise e) = []"
  by (simp add: raise_def)

lemma fst_lift [simp]: "fst (lift r) = r"
  by (simp add: lift_def)

lemma snd_lift [simp]: "snd (lift r) = []"
  by (simp add: lift_def)

lemma fst_bind: "fst (bind m f) = (case fst m of Inl e \<Rightarrow> Inl e | Inr x \<Rightarrow> fst (f x))"
  by (simp add: bind_def split: sum.splits)

lemma snd_bind: "snd (bind m f) = (case fst m of Inl e \<Rightarrow> snd m | Inr x \<Rightarrow> snd m @ snd (f x))"
  by (simp add: bind_def split: sum.splits)

lemma fst_bind_Inr [simp]: "fst m = Inr x \<Longrightarrow> fst (bind m f) = fst (f x)"
  by (simp add: fst_bind)

lemma fst_bind_Inl [simp]: "fst m = Inl e \<Longrightarrow> fst (bind m f) = Inl e"
  by (simp add: fst_bind)

lemma fst_try_except:
  "fst (try_except m h) = (case fst m of Inl e \<Rightarrow> fst (h e) | Inr x \<Rightarrow> Inr x)"
  by (simp add: try_except_def split: sum.splits)

lemma snd_try_except:
  "snd (try_except m h) = (case fst m of Inl e \<Rightarrow> snd m @ snd (h e) | Inr x \<Rightarrow> snd m)"
  by (simp add: try_except_def split: sum.splits)

lemma try_except_total: "\<exists>v. fst (try_except m (\<lambda>e. ret d)) = Inr v"
  by (simp add: fst_try_except split: sum.splits)

lemma fst_session_get:
  "fst (session_get srv url) =
     (case srv (GET url) of None \<Rightarrow> Inl RequestException | Some r \<Rightarrow> Inr r)"
  by (simp add: session_get_def split: option.splits)

lemma snd_session_get: "snd (session_get srv url) = [GET url]"
  by (simp add: session_get_def split: option.splits)

lemma fst_for_loop_Cons:
  "fst (for_loop f (x # xs)) =
     (case fst (f x) of Inl e \<Rightarrow> Inl e | Inr (Some v) \<Rightarrow> Inr (Some v)
      | Inr None \<Rightarrow> fst (for_loop f xs))"
  by (simp split: sum.splits option.splits)

lemma for_loop_skip:
  "\<forall>x \<in> set pre. fst (f x) = Inr None \<Longrightarrow>
   fst (for_loop f (pre @ rest)) = fst (for_loop f rest)"
  by (induction pre) (simp_all add: fst_for_loop_Cons del: for_loop.simps(2))

lemma for_loop_all_skip:
  "\<forall>x \<in> set xs. fst (f x) = Inr None \<Longrightarrow> fst (for_loop f xs) = Inr None"
  using for_loop_skip [of xs f "[]"] by simp


lemma startswith_nonempty: "startswith t (p # ps) \<Longrightarrow> t \<noteq> []"
  by (cases t) simp_all

lemma ensure_dict_cases: "ensure_dict x = JNull \<or> (\<exists>m. ensure_dict x = JObject m)"
  unfolding ensure_dict_def by (rule unwrap_cases)

section \<open>Properties of the Element Fetcher\<close>

lemma get_element_total: "\<exists>v. fst (get_element_fromAPI srv q i) = Inr v"
  unfolding get_element_fromAPI_def by (rule try_except_total)

lemma fetch_eq: "fst (get_element_fromAPI srv q i) = Inr (fetch srv q i)"
  using get_element_total [of srv q i] by (auto simp: fetch_def)

lemma fetch_value:
  "fetch srv query_url element_id =
     (case element_id of
        JStr s \<Rightarrow>
          (case srv (GET (query_url @ ''/elements/'' @ s)) of
             None \<Rightarrow> JNull
           | Some r \<Rightarrow>
               if status_code r = 200 then
                 (case body r of
                    None \<Rightarrow> JNull
                  | Some (JList []) \<Rightarrow> JNull
                  | Some (JList (x # xs)) \<Rightarrow> x
                  | Some (JObject m) \<Rightarrow> JObject m
                  | Some other \<Rightarrow> JNull)
               else JNull)
      | other \<Rightarrow> JNull)"
  by (cases element_id)
     (simp_all add: fetch_def get_element_fromAPI_def fst_try_except fst_bind fst_session_get
        response_json_def py_get_def
        split: option.splits sum.splits json.splits list.splits)

text \<open>
  C7: the fetcher never raises, whatever the commit scope and the identity. On a
  status other than 200 it returns None. On status 200 it returns the parsed body
  when the body is a mapping, the first element of the body when it is a sequence,
  and None when it is the empty sequence or null; it also returns None when the
  transport fails.
\<close>

theorem get_element_fromAPI_contract:
  "(\<exists>v. fst (get_element_fromAPI srv query_url element_id) = Inr v)
   \<and> (srv (GET (query_url @ ''/elements/'' @ i)) = Some resp \<and> status_code resp \<noteq> 200
        \<longrightarrow> fst (get_element_fromAPI srv query_url (JStr i)) = Inr JNull)
   \<and> (srv (GET (query_url @ ''/elements/'' @ i)) = Some resp \<and> status_code resp = 200
        \<and> body resp = Some (JObject m)
        \<longrightarrow> fst (get_element_fromAPI srv query_url (JStr i)) = Inr (JObject m))
   \<and> (srv (GET (query_url @ ''/elements/'' @ i)) = Some resp \<and> status_code resp = 200
        \<and> body resp = Some (JList (x # xs))
        \<longrightarrow> fst (get_element_fromAPI srv query_url (JStr i)) = Inr x)
   \<and> (srv (GET (query_url @ ''/elements/'' @ i)) = Some resp \<and> status_code resp = 200
        \<and> body resp = Some (JList [])
        \<longrightarrow> fst (get_element_fromAPI srv query_url (JStr i)) = Inr JNull)
   \<and> (srv (GET (query_url @ ''/elements/'' @ i)) = Some resp \<and> status_code resp = 200
        \<and> body resp = Some JNull
        \<longrightarrow> fst (get_element_fromAPI srv query_url (JStr i)) = Inr JNull)
   \<and> (srv (GET (query_url @ ''/elements/'' @ i)) = None
        \<longrightarrow> fst (get_element_fromAPI srv query_url (JStr i)) = Inr JNull)"
proof (intro conjI impI)
  show "\<exists>v. fst (get_element_fromAPI srv query_url element_id) = Inr v"
    by (rule get_element_total)
  show "fst (get_element_fromAPI srv query_url (JStr i)) = Inr JNull"
    if "srv (GET (query_url @ ''/elements/'' @ i)) = Some resp \<and> status_code resp \<noteq> 200"
    using that by (simp add: fetch_eq fetch_value)
  show "fst (get_element_fromAPI srv query_url (JStr i)) = Inr (JObject m)"
    if "srv (GET (query_url @ ''/elements/'' @ i)) = Some resp \<and> status_code resp = 200
        \<and> body resp = Some (JObject m)"
    using that by (simp add: fetch_eq fetch_value)
  show "fst (get_element_fromAPI srv query_url (JStr i)) = Inr x"
    if "srv (GET (query_url @ ''/elements/'' @ i)) = Some resp \<and> status_code resp = 200
        \<and> body resp = Some (JList (x # xs))"
    using that by (simp add: fetch_eq fetch_value)
  show "fst (get_element_fromAPI srv query_url (JStr i)) = Inr JNull"
    if "srv (GET (query_url @ ''/elements/'' @ i)) = Some resp \<and> status_code resp = 200
        \<and> body resp = Some (JList [])"
    using that by (simp add: fetch_eq fetch_value)
  show "fst (get_element_fromAPI srv query_url (JStr i)) = Inr JNull"
    if "srv (GET (query_url @ ''/elements/'' @ i)) = Some resp \<and> status_code resp = 200
        \<and> body resp = Some JNull"
    using that by (simp add: fetch_eq fetch_value)
  show "fst (get_element_fromAPI srv query_url (JStr i)) = Inr JNull"
    if "srv (GET (query_url @ ''/elements/'' @ i)) = None"
    using that by (simp add: fetch_eq fetch_value)
qed

text \<open>
  In the model store \<open>missing\<close> is answered with status 404, \<open>f1\<close> with a
  mapping and \<open>v1\<close> with a list of one mapping; the other servers answer with the
  empty list, with null, or not at all.
\<close>

theorem get_element_fromAPI_contract_witness:
  "fst (get_element_fromAPI demo_server ''http://s/projects/p/commits/c'' (JStr ''missing''))
     = Inr JNull
   \<and> fst (get_element_fromAPI demo_server ''http://s/projects/p/commits/c'' (JStr ''f1''))
     = Inr (JObject demo_f1)
   \<and> fst (get_element_fromAPI demo_server ''http://s/projects/p/commits/c'' (JStr ''v1''))
     = Inr (JObject demo_v1)
   \<and> fst (get_element_fromAPI (constant_server (JList [])) ''http://s/projects/p/commits/c''
            (JStr ''f1'')) = Inr JNull
   \<and> fst (get_element_fromAPI (constant_server JNull) ''http://s/projects/p/commits/c''
            (JStr ''f1'')) = Inr JNull
   \<and> fst (get_element_fromAPI unreachable_server ''http://s/projects/p/commits/c''
            (JStr ''f1'')) = Inr JNull"
proof -
  let ?q = "''http://s/projects/p/commits/c''"
  have h1: "demo_server (GET (?q @ ''/elements/'' @ ''missing'')) = Some (HttpResponse 404 None)
      \<and> status_code (HttpResponse 404 None) \<noteq> 200"
    by (simp add: demo_server_def demo_elements_def)
  have a: "fst (get_element_fromAPI demo_server ?q (JStr ''missing'')) = Inr JNull"
    by (rule get_element_fromAPI_contract [where srv = demo_server and query_url = ?q
          and i = "''missing''" and resp = "HttpResponse 404 None",
          THEN conjunct2, THEN conjunct1, rule_format, OF h1])
  have h2: "demo_server (GET (?q @ ''/elements/'' @ ''f1'')) = Some (HttpResponse 200 (Some (JObject demo_f1)))
      \<and> status_code (HttpResponse 200 (Some (JObject demo_f1))) = 200
      \<and> body (HttpResponse 200 (Some (JObject demo_f1))) = Some (JObject demo_f1)"
    by (simp add: demo_server_def demo_elements_def)
  have b: "fst (get_element_fromAPI demo_server ?q (JStr ''f1'')) = Inr (JObject demo_f1)"
    by (rule get_element_fromAPI_contract [where srv = demo_server and query_url = ?q
          and i = "''f1''" and resp = "HttpResponse 200 (Some (JObject demo_f1))",
          THEN conjunct2, THEN conjunct2, THEN conjunct1, rule_format, OF h2])
  have h3: "demo_server (GET (?q @ ''/elements/'' @ ''v1''))
        = Some (HttpResponse 200 (Some (JList [JObject demo_v1])))
      \<and> status_code (HttpResponse 200 (Some (JList [JObject demo_v1]))) = 200
      \<and> body (HttpResponse 200 (Some (JList [JObject demo_v1]))) = Some (JList (JObject demo_v1 # []))"
    by (simp add: demo_server_def demo_elements_def)
  have c: "fst (get_element_fromAPI demo_server ?q (JStr ''v1'')) = Inr (JObject demo_v1)"
    by (rule get_element_fromAPI_contract [where srv = demo_server and query_url = ?q
          and i = "''v1''" and resp = "HttpResponse 200 (Some (JList [JObject demo_v1]))",
          THEN conjunct2, THEN conjunct2, THEN conjunct2, THEN conjunct1, rule_format, OF h3])
  have h4: "constant_server (JList []) (GET (?q @ ''/elements/'' @ ''f1''))
        = Some (HttpResponse 200 (Some (JList [])))
      \<and> status_code (HttpResponse 200 (Some (JList []))) = 200
      \<and> body (HttpResponse 200 (Some (JList []))) = Some (JList [])"
    by (simp add: constant_server_def)
  have d: "fst (get_element_fromAPI (constant_server (JList [])) ?q (JStr ''f1'')) = Inr JNull"
    by (rule get_element_fromAPI_contract [where srv = "constant_server (JList [])"
          and query_url = ?q and i = "''f1''" and resp = "HttpResponse 200 (Some (JList []))",
          THEN conjunct2, THEN conjunct2, THEN conjunct2, THEN conjunct2, THEN conjunct1,
          rule_format, OF h4])
  have h5: "constant_server JNull (GET (?q @ ''/elements/'' @ ''f1''))
        = Some (HttpResponse 200 (Some JNull))
      \<and> status_code (HttpResponse 200 (Some JNull)) = 200
      \<and> body (HttpResponse 200 (Some JNull)) = Some JNull"
    by (simp add: constant_server_def)
  have e: "fst (get_element_fromAPI (constant_server JNull) ?q (JStr ''f1'')) = Inr JNull"
    by (rule get_element_fromAPI_contract [where srv = "constant_server JNull"
          and query_url = ?q and i = "''f1''" and resp = "HttpResponse 200 (Some JNull)",
          THEN conjunct2, THEN conjunct2, THEN conjunct2, THEN conjunct2, THEN conjunct2,
          THEN conjunct1, rule_format, OF h5])
  have h6: "unreachable_server (GET (?q @ ''/elements/'' @ ''f1'')) = None"
    by (simp add: unreachable_server_def)
  have f: "fst (get_element_fromAPI unreachable_server ?q (JStr ''f1'')) = Inr JNull"
    by (rule get_element_fromAPI_contract [where srv = unreachable_server
          and query_url = ?q and i = "''f1''",
          THEN conjunct2, THEN conjunct2, THEN conjunct2, THEN conjunct2, THEN conjunct2,
          THEN conjunct2, rule_format, OF h6])
  from a b c d e f show ?thesis by simp
qed


section \<open>Properties of the Value Resolver\<close>

lemma feature_value_step_skip:
  assumes "py_get (resolve_ref srv q r) ''@type'' \<noteq> Inr (JStr ''FeatureValue'')"
  shows "fst (feature_value_step srv q r) = Inr None"
proof -
  from ensure_dict_cases [of r] show ?thesis
  proof
    assume "ensure_dict r = JNull"
    then show ?thesis by (simp add: feature_value_step_def)
  next
    assume "\<exists>m. ensure_dict r = JObject m"
    then obtain m where m: "ensure_dict r = JObject m" ..
    show ?thesis
    proof (cases "m = []")
      case True
      with m show ?thesis by (simp add: feature_value_step_def)
    next
      case False
      let ?i = "case map_of m ''@id'' of None \<Rightarrow> JNull | Some v \<Rightarrow> v"
      have i: "py_get (JObject m) ''@id'' = Inr ?i" by (simp add: py_get_def)
      show ?thesis
      proof (cases "truthy ?i")
        case no: False
        with m False i show ?thesis by (simp add: feature_value_step_def)
      next
        case yes: True
        from m i yes have rr: "resolve_ref srv q r = ensure_dict (fetch srv q ?i)"
          by (simp add: resolve_ref_def)
        from ensure_dict_cases [of "fetch srv q ?i"] show ?thesis
        proof
          assume "ensure_dict (fetch srv q ?i) = JNull"
          with m False i yes show ?thesis
            by (simp add: feature_value_step_def fetch_eq)
        next
          assume "\<exists>rel. ensure_dict (fetch srv q ?i) = JObject rel"
          then obtain rel where rel: "ensure_dict (fetch srv q ?i) = JObject rel" ..
          from assms rr rel have "py_get (JObject rel) ''@type'' \<noteq> Inr (JStr ''FeatureValue'')"
            by simp
          with m False i yes rel show ?thesis
            by (simp add: feature_value_step_def fetch_eq py_get_def Let_def)
        qed
      qed
    qed
  qed
qed

lemma resolve_ref_JObjectD:
  assumes "resolve_ref srv q r = JObject rel"
  shows "\<exists>m i. ensure_dict r = JObject m \<and> m \<noteq> [] \<and> py_get (JObject m) ''@id'' = Inr i
           \<and> truthy i \<and> ensure_dict (fetch srv q i) = JObject rel"
proof -
  from ensure_dict_cases [of r] show ?thesis
  proof
    assume "ensure_dict r = JNull"
    with assms show ?thesis by (simp add: resolve_ref_def py_get_def)
  next
    assume "\<exists>m. ensure_dict r = JObject m"
    then obtain m where m: "ensure_dict r = JObject m" ..
    let ?i = "case map_of m ''@id'' of None \<Rightarrow> JNull | Some v \<Rightarrow> v"
    have i: "py_get (JObject m) ''@id'' = Inr ?i" by (simp add: py_get_def)
    from assms m i have t: "truthy ?i" and e: "ensure_dict (fetch srv q ?i) = JObject rel"
      by (simp_all add: resolve_ref_def split: if_splits)
    from t have "m \<noteq> []" by auto
    with m i t e show ?thesis by blast
  qed
qed

lemma feature_value_step_literal:
  assumes rel: "resolve_ref srv q r = JObject rel"
    and ty: "map_of rel ''@type'' = Some (JStr ''FeatureValue'')"
    and related: "map_of rel ''ownedRelatedElement'' = Some (JList (vref # more))"
    and lit: "resolve_ref srv q vref = JObject lit"
    and lty: "map_of lit ''@type'' = Some (JStr t)"
    and starts: "startswith t ''Literal''"
  shows "fst (feature_value_step srv q r) =
           Inr (Some (JObject [(''value_id'', case map_of lit ''@id'' of None \<Rightarrow> JNull | Some v \<Rightarrow> v),
                               (''value'', case map_of lit ''value'' of None \<Rightarrow> JNull | Some v \<Rightarrow> v)]))"
proof -
  from resolve_ref_JObjectD [OF rel] obtain m i where
    m: "ensure_dict r = JObject m" "m \<noteq> []" "py_get (JObject m) ''@id'' = Inr i" "truthy i"
       "ensure_dict (fetch srv q i) = JObject rel" by blast
  from resolve_ref_JObjectD [OF lit] obtain m' i' where
    m': "ensure_dict vref = JObject m'" "m' \<noteq> []" "py_get (JObject m') ''@id'' = Inr i'" "truthy i'"
       "ensure_dict (fetch srv q i') = JObject lit" by blast
  from ty have rel_ne: "rel \<noteq> []" by auto
  from lty have lit_ne: "lit \<noteq> []" by auto
  from starts have t_ne: "t \<noteq> []" by (rule startswith_nonempty)
  show ?thesis
    using m m' ty related lty starts rel_ne lit_ne t_ne
    by (simp add: feature_value_step_def fetch_eq py_get_def Let_def)
qed


lemma body_value:
  assumes "ensure_dict (fetch srv (commit_url repr s p c) fid) = JObject feature"
    and "feature \<noteq> []"
    and "py_iter (case map_of feature ''ownedRelationship'' of None \<Rightarrow> JList [] | Some v \<Rightarrow> v)
           = Inr refs"
  shows "fst (getFeatureValueFromFeature_body repr srv s p c fid) =
           (case fst (for_loop (feature_value_step srv (commit_url repr s p c)) refs) of
              Inl e \<Rightarrow> Inl e | Inr None \<Rightarrow> Inr JNull | Inr (Some v) \<Rightarrow> Inr v)"
  using assms
  by (simp add: getFeatureValueFromFeature_body_def Let_def fetch_eq fst_bind
        split: sum.split option.split)




text \<open>The model store, evaluated.\<close>

lemma demo_commit_url:
  "commit_url repr (JStr ''http://s'') (JStr ''p'') (JStr ''c'') = ''http://s/projects/p/commits/c''"
  by (simp add: commit_url_def py_str_def)

lemma demo_fetch:
  "fetch demo_server ''http://s/projects/p/commits/c'' (JStr i) =
     (case map_of demo_elements i of
        None \<Rightarrow> JNull
      | Some (JList []) \<Rightarrow> JNull
      | Some (JList (x # xs)) \<Rightarrow> x
      | Some (JObject m) \<Rightarrow> JObject m
      | Some other \<Rightarrow> JNull)"
  by (simp add: fetch_value demo_server_def split: option.splits)

lemma demo_resolve:
  "resolve_ref demo_server ''http://s/projects/p/commits/c'' (ref i) =
     (if i = [] then JNull
      else ensure_dict (fetch demo_server ''http://s/projects/p/commits/c'' (JStr i)))"
  by (simp add: resolve_ref_def ref_def ensure_dict_def py_get_def)

lemma body_literal:
  assumes feature: "ensure_dict (fetch srv (commit_url repr s p c) fid) = JObject feature"
    and owned: "map_of feature ''ownedRelationship'' = Some (JList (pre @ r # post))"
    and pre: "\<forall>x \<in> set pre.
                py_get (resolve_ref srv (commit_url repr s p c) x) ''@type''
                  \<noteq> Inr (JStr ''FeatureValue'')"
    and rel: "resolve_ref srv (commit_url repr s p c) r = JObject rel"
    and ty: "map_of rel ''@type'' = Some (JStr ''FeatureValue'')"
    and related: "map_of rel ''ownedRelatedElement'' = Some (JList (vref # more))"
    and lit: "resolve_ref srv (commit_url repr s p c) vref = JObject lit"
    and lty: "map_of lit ''@type'' = Some (JStr t)"
    and starts: "startswith t ''Literal''"
    and vid: "py_get (JObject lit) ''@id'' = Inr value_id"
    and v: "py_get (JObject lit) ''value'' = Inr val"
  shows "fst (getFeatureValueFromFeature_body repr srv s p c fid) =
           Inr (JObject [(''value_id'', value_id), (''value'', val)])"
proof -
  let ?q = "commit_url repr s p c"
  let ?f = "feature_value_step srv ?q"
  from owned have ne: "feature \<noteq> []" by auto
  from owned have it: "py_iter (case map_of feature ''ownedRelationship'' of
                          None \<Rightarrow> JList [] | Some v \<Rightarrow> v) = Inr (pre @ r # post)" by simp
  from pre have skip: "\<forall>x \<in> set pre. fst (?f x) = Inr None"
    by (simp add: feature_value_step_skip)
  have step: "fst (?f r) = Inr (Some (JObject [(''value_id'', value_id), (''value'', val)]))"
    using feature_value_step_literal [OF rel ty related lit lty starts] vid v
    by (simp add: py_get_def)
  have "fst (for_loop ?f (pre @ r # post)) = fst (for_loop ?f (r # post))"
    using skip by (rule for_loop_skip)
  also have "\<dots> = Inr (Some (JObject [(''value_id'', value_id), (''value'', val)]))"
    using step by (simp add: fst_for_loop_Cons del: for_loop.simps)
  finally have loop: "fst (for_loop ?f (pre @ r # post)) =
      Inr (Some (JObject [(''value_id'', value_id), (''value'', val)]))" .
  show ?thesis
    using body_value [OF feature ne it] loop by simp
qed

lemma demo_f1_facts:
  "ensure_dict (fetch demo_server (commit_url repr (JStr ''http://s'') (JStr ''p'') (JStr ''c''))
      (JStr ''f1'')) = JObject demo_f1"
  "map_of demo_f1 ''ownedRelationship'' = Some (JList ([ref ''r0''] @ ref ''r1'' # []))"
  "\<forall>x \<in> set [ref ''r0''].
      py_get (resolve_ref demo_server
                (commit_url repr (JStr ''http://s'') (JStr ''p'') (JStr ''c'')) x) ''@type''
        \<noteq> Inr (JStr ''FeatureValue'')"
  "resolve_ref demo_server (commit_url repr (JStr ''http://s'') (JStr ''p'') (JStr ''c''))
      (ref ''r1'') = JObject demo_r1"
  "map_of demo_r1 ''@type'' = Some (JStr ''FeatureValue'')"
  "map_of demo_r1 ''ownedRelatedElement'' = Some (JList (ref ''v1'' # []))"
  "resolve_ref demo_server (commit_url repr (JStr ''http://s'') (JStr ''p'') (JStr ''c''))
      (ref ''v1'') = JObject demo_v1"
  "map_of demo_v1 ''@type'' = Some (JStr ''LiteralInteger'')"
  "startswith ''LiteralInteger'' ''Literal''"
  "py_get (JObject demo_v1) ''@id'' = Inr (JStr ''v1'')"
  "py_get (JObject demo_v1) ''value'' = Inr (JInt 42)"
  by (simp_all add: demo_commit_url demo_fetch demo_resolve demo_elements_def ensure_dict_def
        py_get_def demo_f1_def demo_r0_def demo_r1_def demo_v1_def)

lemma demo_f1_value:
  "fst (getFeatureValueFromFeature repr demo_server (JStr ''http://s'') (JStr ''p'') (JStr ''c'')
          (JStr ''f1'')) =
     Inr (JObject [(''value_id'', JStr ''v1''), (''value'', JInt 42)])"
  using body_literal [OF demo_f1_facts, of repr]
  by (simp add: getFeatureValueFromFeature_def fst_try_except)

text \<open>
  C5: a feature whose first FeatureValue relationship (the relationships before it
  are of other kinds or do not resolve) has a first \<open>ownedRelatedElement\<close> that
  resolves to an element whose \<open>@type\<close> starts with \<open>Literal\<close>: the resolver
  returns the pair of that element's \<open>@id\<close> and of its \<open>value\<close> field.
\<close>

theorem getFeatureValueFromFeature_literal:
  assumes feature: "ensure_dict (fetch srv (commit_url repr s p c) fid) = JObject feature"
    and owned: "map_of feature ''ownedRelationship'' = Some (JList (pre @ r # post))"
    and pre: "\<forall>x \<in> set pre.
                py_get (resolve_ref srv (commit_url repr s p c) x) ''@type''
                  \<noteq> Inr (JStr ''FeatureValue'')"
    and rel: "resolve_ref srv (commit_url repr s p c) r = JObject rel"
    and ty: "map_of rel ''@type'' = Some (JStr ''FeatureValue'')"
    and related: "map_of rel ''ownedRelatedElement'' = Some (JList (vref # more))"
    and lit: "resolve_ref srv (commit_url repr s p c) vref = JObject lit"
    and lty: "map_of lit ''@type'' = Some (JStr t)"
    and starts: "startswith t ''Literal''"
    and vid: "py_get (JObject lit) ''@id'' = Inr value_id"
    and v: "py_get (JObject lit) ''value'' = Inr val"
  shows "fst (getFeatureValueFromFeature repr srv s p c fid) =
           Inr (JObject [(''value_id'', value_id), (''value'', val)])"
proof -
  have "fst (getFeatureValueFromFeature_body repr srv s p c fid) =
      Inr (JObject [(''value_id'', value_id), (''value'', val)])"
    using assms by (rule body_literal)
  then show ?thesis
    by (simp add: getFeatureValueFromFeature_def fst_try_except)
qed

text \<open>
  The feature \<open>f1\<close> of the model store: a Redefinition, then a FeatureValue
  pointing to the LiteralInteger \<open>v1\<close> with the value 42.
\<close>

theorem getFeatureValueFromFeature_literal_witness:
  "fst (getFeatureValueFromFeature (\<lambda>x. []) demo_server (JStr ''http://s'') (JStr ''p'') (JStr ''c'')
          (JStr ''f1'')) =
     Inr (JObject [(''value_id'', JStr ''v1''), (''value'', JInt 42)])"
  by (rule getFeatureValueFromFeature_literal [OF demo_f1_facts])







section \<open>Properties of the Operator Expression Decoder\<close>

lemma opexp_step_skip:
  assumes "py_item r ''@id'' = Inr i" and "is_dict (fetch srv q i)"
    and "\<not> is_x_parameter (fetch srv q i)"
  shows "fst (opexp_step srv q r) = Inr None"
proof -
  from assms(2) obtain rel where rel: "fetch srv q i = JObject rel"
    by (cases "fetch srv q i") simp_all
  from assms(3) rel have
    "map_of rel ''@type'' \<noteq> Some (JStr ''ParameterMembership'')
     \<or> map_of rel ''memberName'' \<noteq> Some (JStr ''x'')"
    by (auto simp: is_x_parameter_def py_get_def split: option.splits)
  with assms(1) rel show ?thesis
    by (auto simp: opexp_step_def fetch_eq py_get_def split: option.splits)
qed

lemma opexp_step_select:
  assumes "py_item r ''@id'' = Inr rid" and "is_x_parameter (fetch srv q rid)"
    and "py_item (fetch srv q rid) ''memberElement'' = Inr member_ref"
    and "py_item member_ref ''@id'' = Inr member_id"
    and "py_item (fetch srv q member_id) ''ownedRelationship'' = Inr member_owned"
    and "py_index0 member_owned = Inr first_owned"
    and "py_item first_owned ''@id'' = Inr fv_id"
    and "py_item (fetch srv q fv_id) ''memberElement'' = Inr value_ref"
    and "py_item value_ref ''@id'' = Inr value_id"
  shows "fst (opexp_step srv q r) = Inr (Some (fetch srv q value_id))"
  using assms
  by (simp add: opexp_step_def fetch_eq is_x_parameter_def)

lemma decoder_value:
  assumes "py_get opExp ''ownedRelationship'' = Inr owned" and "py_iter owned = Inr refs"
  shows "fst (getValueFromOperatorExpressionUnit srv q opExp) =
           (case fst (for_loop (opexp_step srv q) refs) of
              Inl e \<Rightarrow> Inl e | Inr None \<Rightarrow> Inr JNull | Inr (Some v) \<Rightarrow> Inr v)"
  using assms
  by (simp add: getValueFromOperatorExpressionUnit_def fst_bind split: sum.split option.split)

text \<open>
  C6 (as the code has it): the decoder walks the expression's
  \<open>ownedRelationship\<close> entries in order. When every entry before the first
  ParameterMembership named \<open>x\<close> is fetched as a mapping that is not such a
  membership, it fetches the membership's \<open>memberElement\<close>, takes that feature's
  first owned relationship, fetches the element that relationship's
  \<open>memberElement\<close> references and returns it. When every entry is fetched as a
  mapping and none is such a membership, it returns None.
\<close>

theorem getValueFromOperatorExpressionUnit_decodes:
  "(py_get opExp ''ownedRelationship'' = Inr owned \<and> py_iter owned = Inr (pre @ r # post)
    \<and> (\<forall>x \<in> set pre. \<exists>i. py_item x ''@id'' = Inr i \<and> is_dict (fetch srv q i)
                           \<and> \<not> is_x_parameter (fetch srv q i))
    \<and> py_item r ''@id'' = Inr rid \<and> is_x_parameter (fetch srv q rid)
    \<and> py_item (fetch srv q rid) ''memberElement'' = Inr member_ref
    \<and> py_item member_ref ''@id'' = Inr member_id
    \<and> py_item (fetch srv q member_id) ''ownedRelationship'' = Inr member_owned
    \<and> py_index0 member_owned = Inr first_owned
    \<and> py_item first_owned ''@id'' = Inr fv_id
    \<and> py_item (fetch srv q fv_id) ''memberElement'' = Inr value_ref
    \<and> py_item value_ref ''@id'' = Inr value_id
    \<longrightarrow> fst (getValueFromOperatorExpressionUnit srv q opExp) = Inr (fetch srv q value_id))
   \<and> (py_get opExp ''ownedRelationship'' = Inr owned \<and> py_iter owned = Inr refs
    \<and> (\<forall>x \<in> set refs. \<exists>i. py_item x ''@id'' = Inr i \<and> is_dict (fetch srv q i)
                            \<and> \<not> is_x_parameter (fetch srv q i))
    \<longrightarrow> fst (getValueFromOperatorExpressionUnit srv q opExp) = Inr JNull)"
proof (intro conjI impI)
  let ?f = "opexp_step srv q"
  assume h: "py_get opExp ''ownedRelationship'' = Inr owned \<and> py_iter owned = Inr (pre @ r # post)
    \<and> (\<forall>x \<in> set pre. \<exists>i. py_item x ''@id'' = Inr i \<and> is_dict (fetch srv q i)
                           \<and> \<not> is_x_parameter (fetch srv q i))
    \<and> py_item r ''@id'' = Inr rid \<and> is_x_parameter (fetch srv q rid)
    \<and> py_item (fetch srv q rid) ''memberElement'' = Inr member_ref
    \<and> py_item member_ref ''@id'' = Inr member_id
    \<and> py_item (fetch srv q member_id) ''ownedRelationship'' = Inr member_owned
    \<and> py_index0 member_owned = Inr first_owned
    \<and> py_item first_owned ''@id'' = Inr fv_id
    \<and> py_item (fetch srv q fv_id) ''memberElement'' = Inr value_ref
    \<and> py_item value_ref ''@id'' = Inr value_id"
  then have owned: "py_get opExp ''ownedRelationship'' = Inr owned"
    and it: "py_iter owned = Inr (pre @ r # post)"
    and pre: "\<forall>x \<in> set pre. \<exists>i. py_item x ''@id'' = Inr i \<and> is_dict (fetch srv q i)
                           \<and> \<not> is_x_parameter (fetch srv q i)"
    by simp_all
  from pre have skip: "\<forall>x \<in> set pre. fst (?f x) = Inr None"
    using opexp_step_skip by blast
  from h have step: "fst (?f r) = Inr (Some (fetch srv q value_id))"
    by (intro opexp_step_select [where rid = rid and member_ref = member_ref
          and member_id = member_id and member_owned = member_owned
          and first_owned = first_owned and fv_id = fv_id and value_ref = value_ref]) simp_all
  have "fst (for_loop ?f (pre @ r # post)) = fst (for_loop ?f (r # post))"
    using skip by (rule for_loop_skip)
  also have "\<dots> = Inr (Some (fetch srv q value_id))"
    using step by (simp add: fst_for_loop_Cons del: for_loop.simps)
  finally show "fst (getValueFromOperatorExpressionUnit srv q opExp) = Inr (fetch srv q value_id)"
    using decoder_value [OF owned it] by simp
next
  let ?f = "opexp_step srv q"
  assume h: "py_get opExp ''ownedRelationship'' = Inr owned \<and> py_iter owned = Inr refs
    \<and> (\<forall>x \<in> set refs. \<exists>i. py_item x ''@id'' = Inr i \<and> is_dict (fetch srv q i)
                            \<and> \<not> is_x_parameter (fetch srv q i))"
  then have owned: "py_get opExp ''ownedRelationship'' = Inr owned"
    and it: "py_iter owned = Inr refs"
    and none: "\<forall>x \<in> set refs. \<exists>i. py_item x ''@id'' = Inr i \<and> is_dict (fetch srv q i)
                            \<and> \<not> is_x_parameter (fetch srv q i)"
    by simp_all
  from none have "\<forall>x \<in> set refs. fst (?f x) = Inr None"
    using opexp_step_skip by blast
  then have "fst (for_loop ?f refs) = Inr None"
    by (rule for_loop_all_skip)
  then show "fst (getValueFromOperatorExpressionUnit srv q opExp) = Inr JNull"
    using decoder_value [OF owned it] by simp
qed

text \<open>
  C6 as stated fails where no such ParameterMembership exists and the decoder
  does not return None: an expression whose only relationship cannot be fetched makes
  it raise AttributeError, and an expression without \<open>ownedRelationship\<close> makes it
  raise TypeError.
\<close>

theorem getValueFromOperatorExpressionUnit_raises_counterexample:
  "fst (getValueFromOperatorExpressionUnit demo_server ''http://s/projects/p/commits/c''
          (JObject [(''@id'', JStr ''e0''), (''@type'', JStr ''OperatorExpression''),
                    (''ownedRelationship'', JList [ref ''gone''])])) = Inl AttributeError
   \<and> fst (getValueFromOperatorExpressionUnit demo_server ''http://s/projects/p/commits/c''
          (JObject [(''@id'', JStr ''e0''), (''@type'', JStr ''OperatorExpression'')]))
       = Inl TypeError"
  by (simp add: getValueFromOperatorExpressionUnit_def py_get_def opexp_step_def ref_def
        fetch_eq demo_fetch demo_elements_def)

text \<open>
  In the model store the expression \<open>e1\<close> owns a Redefinition and the
  ParameterMembership \<open>pm1\<close> named \<open>x\<close>, whose chain ends in the literal
  \<open>v2\<close>; the element \<open>f2\<close> owns a Redefinition only.
\<close>

theorem getValueFromOperatorExpressionUnit_decodes_witness:
  "fst (getValueFromOperatorExpressionUnit demo_server ''http://s/projects/p/commits/c''
          (JObject demo_e1)) = Inr (JObject demo_v2)
   \<and> fst (getValueFromOperatorExpressionUnit demo_server ''http://s/projects/p/commits/c''
          (JObject demo_f2)) = Inr JNull"
proof -
  let ?q = "''http://s/projects/p/commits/c''"
  note inst = getValueFromOperatorExpressionUnit_decodes [of _ _ _ _ _ demo_server ?q]
  have r0: "\<forall>x \<in> set [ref ''r0'']. \<exists>i. py_item x ''@id'' = Inr i
              \<and> is_dict (fetch demo_server ?q i) \<and> \<not> is_x_parameter (fetch demo_server ?q i)"
    by (simp add: ref_def demo_fetch demo_elements_def is_x_parameter_def py_get_def demo_r0_def)
  have a: "fst (getValueFromOperatorExpressionUnit demo_server ?q (JObject demo_e1))
             = Inr (fetch demo_server ?q (JStr ''v2''))"
  proof (rule inst [THEN conjunct1, rule_format,
        where owned = "JList [ref ''r0'', ref ''pm1'']" and pre = "[ref ''r0'']"
          and r = "ref ''pm1''" and post = "[]" and rid = "JStr ''pm1''"
          and member_ref = "ref ''par1''" and member_id = "JStr ''par1''"
          and member_owned = "JList [ref ''fv2'']" and first_owned = "ref ''fv2''"
          and fv_id = "JStr ''fv2''" and value_ref = "ref ''v2''"])
    show "py_get (JObject demo_e1) ''ownedRelationship'' = Inr (JList [ref ''r0'', ref ''pm1''])
      \<and> py_iter (JList [ref ''r0'', ref ''pm1'']) = Inr ([ref ''r0''] @ ref ''pm1'' # [])
      \<and> (\<forall>x \<in> set [ref ''r0'']. \<exists>i. py_item x ''@id'' = Inr i
              \<and> is_dict (fetch demo_server ?q i) \<and> \<not> is_x_parameter (fetch demo_server ?q i))
      \<and> py_item (ref ''pm1'') ''@id'' = Inr (JStr ''pm1'')
      \<and> is_x_parameter (fetch demo_server ?q (JStr ''pm1''))
      \<and> py_item (fetch demo_server ?q (JStr ''pm1'')) ''memberElement'' = Inr (ref ''par1'')
      \<and> py_item (ref ''par1'') ''@id'' = Inr (JStr ''par1'')
      \<and> py_item (fetch demo_server ?q (JStr ''par1'')) ''ownedRelationship''
           = Inr (JList [ref ''fv2''])
      \<and> py_index0 (JList [ref ''fv2'']) = Inr (ref ''fv2'')
      \<and> py_item (ref ''fv2'') ''@id'' = Inr (JStr ''fv2'')
      \<and> py_item (fetch demo_server ?q (JStr ''fv2'')) ''memberElement'' = Inr (ref ''v2'')
      \<and> py_item (ref ''v2'') ''@id'' = Inr (JStr ''v2'')"
      using r0
      by (simp add: py_get_def demo_e1_def demo_fetch demo_elements_def is_x_parameter_def
            demo_pm1_def demo_par1_def demo_fv2_def ref_def)
  qed
  have b: "fst (getValueFromOperatorExpressionUnit demo_server ?q (JObject demo_f2)) = Inr JNull"
  proof (rule inst [THEN conjunct2, rule_format,
        where owned = "JList [ref ''r0'']" and refs = "[ref ''r0'']"])
    show "py_get (JObject demo_f2) ''ownedRelationship'' = Inr (JList [ref ''r0''])
      \<and> py_iter (JList [ref ''r0'']) = Inr [ref ''r0'']
      \<and> (\<forall>x \<in> set [ref ''r0'']. \<exists>i. py_item x ''@id'' = Inr i
              \<and> is_dict (fetch demo_server ?q i) \<and> \<not> is_x_parameter (fetch demo_server ?q i))"
      using r0 by (simp add: py_get_def demo_f2_def)
  qed
  from a b show ?thesis
    by (simp add: demo_fetch demo_elements_def)
qed

section \<open>Properties of the caller-facing operations\<close>

lemma route_prefix:
  assumes "py_get input_data ''server_url'' = Inr su"
    and "py_get input_data ''project_id'' = Inr pid"
    and "py_get input_data ''commit_id'' = Inr cid"
    and "py_get input_data ''element_id'' = Inr eid"
    and "py_get (fetch srv (commit_url repr su pid cid) eid) ''@type'' = Inr fv_type"
    and "py_startswith fv_type ''Literal'' \<noteq> Inr True"
    and "fv_type \<noteq> JStr ''OperatorExpression''"
  shows "fst (queryFeatureValue_route repr srv input_data) =
     (case py_startswith fv_type ''Literal'' of
        Inl e \<Rightarrow> Inl e
      | Inr b \<Rightarrow>
         (case py_get (fetch srv (commit_url repr su pid cid) eid) ''owner'' of
            Inl e \<Rightarrow> Inl e
          | Inr owner_ref \<Rightarrow>
             (case py_get owner_ref ''@id'' of
                Inl e \<Rightarrow> Inl e
              | Inr owner_id \<Rightarrow>
                 (case py_get_default (fetch srv (commit_url repr su pid cid) owner_id) ''name''
                         (JStr ''Unknown Owner'') of
                    Inl e \<Rightarrow> Inl e
                  | Inr n \<Rightarrow> Inl UnboundLocalError))))"
  using assms
  by (simp add: queryFeatureValue_route_def Let_def fetch_eq fst_bind split: sum.split)


text \<open>
  C9: in \<open>queryFeatureValue\<close>, when the \<open>@type\<close> of the fetched element
  neither starts with \<open>Literal\<close> nor equals \<open>OperatorExpression\<close>, the route
  raises and the caller gets the generic error reply with status 500, never a
  \<open>name=value\<close> text. When moreover the type is a string and the owner is fetched
  as a mapping, the exception is the UnboundLocalError of the unassigned \<open>value\<close>.
\<close>

theorem queryFeatureValue_unbound_value:
  assumes "py_get input_data ''server_url'' = Inr su"
    and "py_get input_data ''project_id'' = Inr pid"
    and "py_get input_data ''commit_id'' = Inr cid"
    and "py_get input_data ''element_id'' = Inr eid"
    and "py_get (fetch srv (commit_url repr su pid cid) eid) ''@type'' = Inr fv_type"
    and "py_startswith fv_type ''Literal'' \<noteq> Inr True"
    and "fv_type \<noteq> JStr ''OperatorExpression''"
  shows "(\<exists>e. fst (queryFeatureValue_route repr srv input_data) = Inl e
              \<and> fst (queryFeatureValue repr srv input_data) = JsonError (ExceptionText e) 500)
         \<and> (is_str fv_type
              \<and> py_get (fetch srv (commit_url repr su pid cid) eid) ''owner'' = Inr owner_ref
              \<and> py_get owner_ref ''@id'' = Inr owner_id
              \<and> is_dict (fetch srv (commit_url repr su pid cid) owner_id)
              \<longrightarrow> fst (queryFeatureValue_route repr srv input_data) = Inl UnboundLocalError)"
proof (intro conjI impI)
  note route = route_prefix [OF assms]
  from route have "\<exists>e. fst (queryFeatureValue_route repr srv input_data) = Inl e"
    by (simp split: sum.split)
  then obtain e where e: "fst (queryFeatureValue_route repr srv input_data) = Inl e" ..
  then have "fst (queryFeatureValue repr srv input_data) = JsonError (ExceptionText e) 500"
    by (simp add: queryFeatureValue_def handle_errors_def)
  with e show "\<exists>e. fst (queryFeatureValue_route repr srv input_data) = Inl e
      \<and> fst (queryFeatureValue repr srv input_data) = JsonError (ExceptionText e) 500"
    by blast
  assume h: "is_str fv_type
      \<and> py_get (fetch srv (commit_url repr su pid cid) eid) ''owner'' = Inr owner_ref
      \<and> py_get owner_ref ''@id'' = Inr owner_id
      \<and> is_dict (fetch srv (commit_url repr su pid cid) owner_id)"
  then obtain t where t: "fv_type = JStr t" by (cases fv_type) simp_all
  from h obtain m where m: "fetch srv (commit_url repr su pid cid) owner_id = JObject m"
    by (cases "fetch srv (commit_url repr su pid cid) owner_id") simp_all
  from route h t m show "fst (queryFeatureValue_route repr srv input_data) = Inl UnboundLocalError"
    by simp
qed

text \<open>
  In the model store the element \<open>r0\<close> is a Redefinition owned by \<open>f1\<close>.
\<close>

theorem queryFeatureValue_unbound_value_witness:
  "fst (queryFeatureValue_route (\<lambda>x. []) demo_server (demo_request ''r0'')) = Inl UnboundLocalError
   \<and> fst (queryFeatureValue (\<lambda>x. []) demo_server (demo_request ''r0''))
       = JsonError (ExceptionText UnboundLocalError) 500"
proof -
  let ?q = "commit_url (\<lambda>x. []) (JStr ''http://s'') (JStr ''p'') (JStr ''c'')"
  have q: "?q = ''http://s/projects/p/commits/c''"
    by (rule demo_commit_url)
  have a1: "py_get (demo_request ''r0'') ''server_url'' = Inr (JStr ''http://s'')"
    and a2: "py_get (demo_request ''r0'') ''project_id'' = Inr (JStr ''p'')"
    and a3: "py_get (demo_request ''r0'') ''commit_id'' = Inr (JStr ''c'')"
    and a4: "py_get (demo_request ''r0'') ''element_id'' = Inr (JStr ''r0'')"
    by (simp_all add: demo_request_def py_get_def)
  have fv: "fetch demo_server ?q (JStr ''r0'') = JObject demo_r0"
    by (simp add: q demo_fetch demo_elements_def)
  have a5: "py_get (fetch demo_server ?q (JStr ''r0'')) ''@type'' = Inr (JStr ''Redefinition'')"
    by (simp add: fv py_get_def demo_r0_def)
  have a6: "py_startswith (JStr ''Redefinition'') ''Literal'' \<noteq> Inr True"
    by simp
  have a7: "JStr ''Redefinition'' \<noteq> JStr ''OperatorExpression''"
    by simp
  note inst = queryFeatureValue_unbound_value [OF a1 a2 a3 a4 a5 a6 a7, of "ref ''f1''" "JStr ''f1''"]
  have owner: "is_str (JStr ''Redefinition'')
      \<and> py_get (fetch demo_server ?q (JStr ''r0'')) ''owner'' = Inr (ref ''f1'')
      \<and> py_get (ref ''f1'') ''@id'' = Inr (JStr ''f1'')
      \<and> is_dict (fetch demo_server ?q (JStr ''f1''))"
    by (simp add: fv py_get_def demo_r0_def ref_def q demo_fetch demo_elements_def)
  from inst owner have r: "fst (queryFeatureValue_route (\<lambda>x. []) demo_server (demo_request ''r0''))
      = Inl UnboundLocalError"
    by blast
  with inst show ?thesis by auto
qed

text \<open>
  The requests the fetcher sends: one GET when the identity is a string, none
  otherwise.
\<close>

lemma snd_get_element_fromAPI:
  "snd (get_element_fromAPI srv query_url element_id) =
     (case element_id of JStr s \<Rightarrow> [GET (query_url @ ''/elements/'' @ s)] | other \<Rightarrow> [])"
  by (cases element_id)
     (simp_all add: get_element_fromAPI_def snd_try_except snd_bind fst_bind fst_session_get
        snd_session_get response_json_def py_get_def
        split: option.splits sum.splits json.splits list.splits)

text \<open>
  C3 fails on the code: a request to \<open>queryFeatureValue\<close> without
  \<open>project_id\<close> is not rejected. The locator is built with the text \<open>None\<close>, a GET
  is sent, and the error reply comes only after the server's answer (here 404).
\<close>

theorem queryFeatureValue_missing_project_id:
  "queryFeatureValue (\<lambda>x. []) demo_server
     (JObject [(''server_url'', JStr ''http://s''), (''commit_id'', JStr ''c''),
               (''element_id'', JStr ''v1'')])
   = (JsonError (ExceptionText AttributeError) 500,
      [GET ''http://s/projects/None/commits/c/elements/v1''])"
proof -
  let ?input = "JObject [(''server_url'', JStr ''http://s''), (''commit_id'', JStr ''c''),
               (''element_id'', JStr ''v1'')]"
  let ?q = "''http://s/projects/None/commits/c''"
  have q: "commit_url (\<lambda>x. []) (JStr ''http://s'') JNull (JStr ''c'') = ?q"
    by (simp add: commit_url_def py_str_def)
  have f: "fetch demo_server ?q (JStr ''v1'') = JNull"
    by (simp add: fetch_value demo_server_def)
  have v: "fst (queryFeatureValue_route (\<lambda>x. []) demo_server ?input) = Inl AttributeError"
    by (simp add: queryFeatureValue_route_def py_get_def q Let_def fetch_eq f fst_bind)
  have t: "snd (queryFeatureValue_route (\<lambda>x. []) demo_server ?input)
             = [GET ''http://s/projects/None/commits/c/elements/v1'']"
    by (simp add: queryFeatureValue_route_def py_get_def q Let_def fetch_eq f snd_bind
          snd_get_element_fromAPI)
  from v t show ?thesis
    by (simp add: queryFeatureValue_def handle_errors_def)
qed

section \<open>Properties of the tabular output\<close>

lemma csv_field_shape:
  "(\<exists>t. csv_field x = CHR 0x22 # t) \<or> CHR '','' \<notin> set (csv_field x)"
proof (cases "list_ex csv_special x")
  case True
  then show ?thesis by (simp add: csv_field_def)
next
  case False
  then have "\<forall>ch \<in> set x. \<not> csv_special ch" by (simp add: list_ex_iff)
  then have "CHR '','' \<notin> set x" by (auto simp: csv_special_def)
  with False show ?thesis by (simp add: csv_field_def)
qed

lemma no_header_prefix:
  assumes "(\<exists>t. f = CHR 0x22 # t) \<or> CHR '','' \<notin> set f"
  shows "f @ '',AttributeUsage'' @ more \<noteq> ''@id,type'' @ rest"
proof (cases f)
  case Nil
  then show ?thesis by simp
next
  case f1: (Cons a f1)
  show ?thesis
  proof (cases f1)
    case Nil
    with f1 show ?thesis by simp
  next
    case f2: (Cons b f2)
    show ?thesis
    proof (cases f2)
      case Nil
      with f1 f2 show ?thesis by simp
    next
      case f3: (Cons c f3)
      show ?thesis
      proof (cases f3)
        case Nil
        with f1 f2 f3 show ?thesis by simp
      next
        case (Cons d f4)
        with f1 f2 f3 assms show ?thesis by auto
      qed
    qed
  qed
qed

lemma header_line_text: "header_line = ''@id,type,name,value,value_id,owner'' @ [CHR 0x0D, CHR 0x0A]"
  by (simp add: header_line_def fields_def csv_field_def csv_special_def)

lemma csv_line_attribute:
  "csv_line repr [(''@id'', a), (''type'', JStr ''AttributeUsage''), (''name'', n),
                  (''value'', v), (''value_id'', w), (''owner'', ow)]
   = csv_field (csv_text repr a) @ '',AttributeUsage'' @
       ('','' @ csv_field (csv_text repr n) @ '','' @ csv_field (csv_text repr v) @ '',''
        @ csv_field (csv_text repr w) @ '','' @ csv_field (csv_text repr ow)
        @ [CHR 0x0D, CHR 0x0A])"
proof -
  have "csv_field ''AttributeUsage'' = ''AttributeUsage''"
    by (simp add: csv_field_def csv_special_def)
  then show ?thesis
    by (simp add: csv_line_def fields_def csv_text_def)
qed

lemma attribute_row_shape:
  assumes "fst (attribute_row repr srv s p c x) = Inr (Some row)"
  shows "attribute_shaped row"
proof -
  from ensure_dict_cases [of x] show ?thesis
  proof
    assume "ensure_dict x = JNull"
    with assms show ?thesis by (simp add: attribute_row_def)
  next
    assume "\<exists>m. ensure_dict x = JObject m"
    then obtain m where m: "ensure_dict x = JObject m" ..
    show ?thesis
    proof (cases "map_of m ''@type'' = Some (JStr ''AttributeUsage'')")
      case False
      with m assms show ?thesis
        by (auto simp: attribute_row_def py_get_def Let_def split: if_splits option.splits)
    next
      case True
      with m assms show ?thesis
        by (auto simp: attribute_row_def attribute_shaped_def py_get_def Let_def fst_bind
              split: if_splits sum.splits)
    qed
  qed
qed

lemma collect_rows_from:
  "fst (collect_rows f xs) = Inr rows \<Longrightarrow>
   \<forall>row \<in> set rows. \<exists>x \<in> set xs. fst (f x) = Inr (Some row)"
proof (induction xs arbitrary: rows)
  case Nil
  then show ?case by simp
next
  case (Cons x xs)
  then show ?case
    by (fastforce split: sum.splits option.splits)
qed


lemma output_value:
  "fst (outputAttributesToCSV repr srv s p c elements) =
     (case fst (collect_rows (attribute_row repr srv s p c) elements) of
        Inl e \<Rightarrow> JsonError (Message ''Failed to generate csv'') 500
      | Inr rows \<Rightarrow> Body (writerows repr rows))"
  by (simp add: outputAttributesToCSV_def Let_def fst_bind split: sum.split)

lemma writerows_no_header:
  assumes "\<forall>row \<in> set rows. attribute_shaped row"
  shows "writerows repr rows \<noteq> header_line @ rest"
proof (cases rows)
  case Nil
  then show ?thesis by (simp add: writerows_def header_line_text)
next
  case (Cons row more)
  with assms have "attribute_shaped row" by simp
  then obtain a n v w ow where row:
    "row = [(''@id'', a), (''type'', JStr ''AttributeUsage''), (''name'', n),
            (''value'', v), (''value_id'', w), (''owner'', ow)]"
    unfolding attribute_shaped_def by blast
  let ?tail = "'','' @ csv_field (csv_text repr n) @ '','' @ csv_field (csv_text repr v) @ '',''
        @ csv_field (csv_text repr w) @ '','' @ csv_field (csv_text repr ow)
        @ [CHR 0x0D, CHR 0x0A]"
  let ?R = "'',name,value,value_id,owner'' @ [CHR 0x0D, CHR 0x0A] @ rest"
  have w: "writerows repr rows =
          csv_field (csv_text repr a) @ '',AttributeUsage'' @ (?tail @ writerows repr more)"
    by (simp add: writerows_def Cons row csv_line_attribute)
  have h: "header_line @ rest = ''@id,type'' @ ?R"
    by (simp add: header_line_text)
  have ne: "csv_field (csv_text repr a) @ '',AttributeUsage'' @ (?tail @ writerows repr more)
              \<noteq> ''@id,type'' @ ?R"
    by (rule no_header_prefix [OF csv_field_shape])
  show ?thesis
    unfolding w h by (rule ne)
qed

lemma demo_f1_row:
  "fst (attribute_row repr demo_server (JStr ''http://s'') (JStr ''p'') (JStr ''c'') (JObject demo_f1))
   = Inr (Some [(''@id'', JStr ''f1''), (''type'', JStr ''AttributeUsage''),
                (''name'', JStr ''mass''), (''value'', JInt 42), (''value_id'', JStr ''v1''),
                (''owner'', JStr ''vehicle'')])"
proof -
  have owner: "fetch demo_server ''http://s/projects/p/commits/c'' (JStr ''o1'') = JObject demo_o1"
    by (simp add: demo_fetch demo_elements_def)
  show ?thesis
    by (simp add: attribute_row_def Let_def ensure_dict_def demo_commit_url fst_try_except fst_bind
          fetch_eq owner demo_f1_value py_get_def demo_f1_def demo_o1_def ref_def)
qed


text \<open>
  C10: the tabular output holds data rows only. For no element the text is
  empty; for any elements the text never begins with the line of field names
  (every written row has \<open>AttributeUsage\<close> in its second column); and for the
  feature \<open>f1\<close> of the model store the text is its one data row.
\<close>

theorem outputAttributesToCSV_no_header:
  "outputAttributesToCSV repr srv s p c [] = (Body [], [])
   \<and> fst (outputAttributesToCSV repr srv s p c elements) \<noteq> Body (header_line @ rest)
   \<and> fst (outputAttributesToCSV (\<lambda>x. ''42'') demo_server (JStr ''http://s'') (JStr ''p'')
            (JStr ''c'') [JObject demo_f1])
       = Body (''f1,AttributeUsage,mass,42,v1,vehicle'' @ [CHR 0x0D, CHR 0x0A])"
proof (intro conjI)
  show "outputAttributesToCSV repr srv s p c [] = (Body [], [])"
    by (simp add: outputAttributesToCSV_def Let_def bind_def ret_def writerows_def)
  show "fst (outputAttributesToCSV repr srv s p c elements) \<noteq> Body (header_line @ rest)"
  proof (cases "fst (collect_rows (attribute_row repr srv s p c) elements)")
    case (Inl e)
    then show ?thesis by (simp add: output_value)
  next
    case (Inr rows)
    from collect_rows_from [OF Inr] have "\<forall>row \<in> set rows. attribute_shaped row"
      using attribute_row_shape by blast
    then have "writerows repr rows \<noteq> header_line @ rest"
      by (rule writerows_no_header)
    with Inr show ?thesis by (simp add: output_value)
  qed
  show "fst (outputAttributesToCSV (\<lambda>x. ''42'') demo_server (JStr ''http://s'') (JStr ''p'')
            (JStr ''c'') [JObject demo_f1])
       = Body (''f1,AttributeUsage,mass,42,v1,vehicle'' @ [CHR 0x0D, CHR 0x0A])"
    by (simp add: output_value demo_f1_row writerows_def csv_line_def fields_def csv_text_def
          csv_field_def csv_special_def)
qed

section \<open>Properties of the Metadata/Annotation Locator\<close>

lemma append_to_keys: "map fst (append_to key x results) = map fst results"
  by (induction results) (auto simp: append_to_def)

lemma fold_err_invariant:
  assumes "\<And>x s s'. x \<in> set xs \<Longrightarrow> f x s = Inr s' \<Longrightarrow> P s \<Longrightarrow> P s'"
    and "P s" and "fold_err f xs s = Inr s'"
  shows "P s'"
  using assms
proof (induction xs arbitrary: s)
  case Nil
  then show ?case by simp
next
  case (Cons x xs)
  from Cons.prems(3) obtain s1 where s1: "f x s = Inr s1" and rest: "fold_err f xs s1 = Inr s'"
    by (auto split: sum.splits)
  from Cons.prems(1) [of x s s1] s1 Cons.prems(2) have p1: "P s1" by simp
  have step: "\<And>y t t'. y \<in> set xs \<Longrightarrow> f y t = Inr t' \<Longrightarrow> P t \<Longrightarrow> P t'"
    using Cons.prems(1) by (meson list.set_intros(2))
  show ?case by (rule Cons.IH [OF step p1 rest])
qed

lemma fold_err_total:
  assumes "\<And>x s. x \<in> set xs \<Longrightarrow> \<exists>s'. f x s = Inr s'"
  shows "\<exists>s'. fold_err f xs s = Inr s'"
  using assms
proof (induction xs arbitrary: s)
  case Nil
  then show ?case by simp
next
  case (Cons x xs)
  from Cons.prems [of x s] obtain s1 where s1: "f x s = Inr s1" by auto
  from Cons.IH [of s1] Cons.prems obtain s' where "fold_err f xs s1 = Inr s'" by auto
  with s1 show ?case by simp
qed

lemma collect_annotated_keys:
  "collect_annotated key annotated results = Inr results' \<Longrightarrow>
   map fst results' = map fst results"
  by (auto simp: collect_annotated_def append_to_keys split: sum.splits if_splits)

lemma collect_annotated_total:
  "is_dict annotated \<Longrightarrow> \<exists>results'. collect_annotated key annotated results = Inr results'"
  by (cases annotated) (simp_all add: collect_annotated_def py_get_def)

lemma usage_entry_keys:
  assumes "usage_entry item metadata_id entry results = Inr results'"
  shows "map fst results' = map fst results"
proof -
  have loop: "map fst r' = map fst results"
    if "fold_err (collect_annotated (fst entry)) xs results = Inr r'" for xs r'
    using _ _ that
  proof (rule fold_err_invariant [where P = "\<lambda>r. map fst r = map fst results"])
    show "map fst s' = map fst results"
      if "collect_annotated (fst entry) x s = Inr s'" "map fst s = map fst results" for x s s'
      using that collect_annotated_keys by fastforce
    show "map fst results = map fst results" by simp
  qed
  from assms show ?thesis
    by (auto simp: usage_entry_def append_to_keys split: sum.splits if_splits
          dest: loop collect_annotated_keys)
qed


lemma usage_entry_total:
  assumes "usage_well_shaped item"
  shows "\<exists>results'. usage_entry item metadata_id entry results = Inr results'"
proof -
  from assms obtain m where m: "item = JObject m"
    by (cases item) (simp_all add: usage_well_shaped_def)
  let ?ae = "case map_of m ''annotatedElement'' of None \<Rightarrow> JList [] | Some v \<Rightarrow> v"
  have names: "\<exists>u'. fold_err (\<lambda>annotated u. case py_get annotated ''name'' of
                          Inl e \<Rightarrow> Inl e | Inr n \<Rightarrow> Inr u) xs u = Inr u'"
    if "list_all is_dict xs" for xs and u :: unit
  proof (rule fold_err_total)
    fix x and t :: unit
    assume "x \<in> set xs"
    with that have "is_dict x" by (simp add: list_all_iff)
    then show "\<exists>s'. (case py_get x ''name'' of Inl e \<Rightarrow> Inl e | Inr n \<Rightarrow> Inr t) = Inr s'"
      by (cases x) (simp_all add: py_get_def)
  qed
  have ids: "\<exists>r'. fold_err (collect_annotated (fst entry)) xs results = Inr r'"
    if "list_all is_dict xs" for xs
  proof (rule fold_err_total)
    fix x t
    assume "x \<in> set xs"
    with that have "is_dict x" by (simp add: list_all_iff)
    then show "\<exists>s'. collect_annotated (fst entry) x t = Inr s'"
      by (rule collect_annotated_total)
  qed
  show ?thesis
  proof (cases ?ae)
    case (JList xs)
    with assms m have all: "list_all is_dict xs"
      by (simp add: usage_well_shaped_def)
    from names [OF all, of "()"] obtain u' where u': "fold_err (\<lambda>annotated u.
        case py_get annotated ''name'' of Inl e \<Rightarrow> Inl e | Inr n \<Rightarrow> Inr u) xs () = Inr u'"
      by blast
    from ids [OF all] obtain r' where r': "fold_err (collect_annotated (fst entry)) xs results = Inr r'"
      by blast
    from m JList u' r' show ?thesis
      by (simp add: usage_entry_def py_get_def)
  next
    case (JObject d)
    have "\<exists>r'. collect_annotated (fst entry) (JObject d) results = Inr r'"
      by (rule collect_annotated_total) simp
    with m JObject show ?thesis
      by (auto simp: usage_entry_def py_get_def)
  qed (simp_all add: usage_entry_def m py_get_def)
qed

lemma usage_item_keys:
  assumes "usage_item md item results = Inr results'"
  shows "map fst results' = map fst results"
proof -
  have loop: "map fst r' = map fst results"
    if "fold_err (usage_entry item mid) md results = Inr r'" for mid r'
    using _ _ that
  proof (rule fold_err_invariant [where P = "\<lambda>r. map fst r = map fst results"])
    show "map fst s' = map fst results"
      if "usage_entry item mid x s = Inr s'" "map fst s = map fst results" for x s s'
      using that usage_entry_keys by fastforce
    show "map fst results = map fst results" by simp
  qed
  from assms show ?thesis
    by (auto simp: usage_item_def split: sum.splits if_splits dest: loop)
qed

lemma usage_item_total:
  assumes "usage_well_shaped item"
  shows "\<exists>results'. usage_item md item results = Inr results'"
proof -
  from assms obtain m where m: "item = JObject m"
    by (cases item) (simp_all add: usage_well_shaped_def)
  have loop: "\<exists>r'. fold_err (usage_entry item mid) md results = Inr r'" for mid
    by (rule fold_err_total) (rule usage_entry_total [OF assms])
  obtain mid where
    "(if is_dict (case map_of m ''metadataDefinition'' of None \<Rightarrow> JNull | Some v \<Rightarrow> v)
      then py_get (case map_of m ''metadataDefinition'' of None \<Rightarrow> JNull | Some v \<Rightarrow> v) ''@id''
      else Inr (JStr ''Unknown'')) = Inr mid"
    by (cases "case map_of m ''metadataDefinition'' of None \<Rightarrow> JNull | Some v \<Rightarrow> v")
       (simp_all add: py_get_def)
  with loop [of mid] m show ?thesis
    by (simp add: usage_item_def py_get_def)
qed

lemma locator_value:
  assumes "srv (POST query_url metadatausage_query) = Some resp"
  shows "fst (get_metadatausage_annotatedElement_ids srv query_url md) =
     (if status_code resp \<noteq> 200 then Inl ValueError
      else case body resp of
             None \<Rightarrow> Inl JSONDecodeError
           | Some j \<Rightarrow>
               if \<not> truthy j \<or> \<not> is_list j then Inr []
               else case py_iter j of
                      Inl e \<Rightarrow> Inl e
                    | Inr items \<Rightarrow> fold_err (usage_item md) items (map (\<lambda>entry. (fst entry, [])) md))"
  using assms
  by (simp add: get_metadatausage_annotatedElement_ids_def session_post_def response_json_def
        fst_bind split: option.split sum.split)


lemma usages_keys:
  assumes "fold_err (usage_item md) items results = Inr results'"
  shows "map fst results' = map fst results"
  using _ _ assms
proof (rule fold_err_invariant [where P = "\<lambda>r. map fst r = map fst results"])
  show "map fst s' = map fst results"
    if "usage_item md x s = Inr s'" "map fst s = map fst results" for x s s'
    using that usage_item_keys by fastforce
  show "map fst results = map fst results" by simp
qed

lemma usages_total:
  assumes "list_all usage_well_shaped items"
  shows "\<exists>results'. fold_err (usage_item md) items results = Inr results'"
proof (rule fold_err_total)
  fix x s
  assume "x \<in> set items"
  with assms have "usage_well_shaped x" by (simp add: list_all_iff)
  then show "\<exists>s'. usage_item md x s = Inr s'" by (rule usage_item_total)
qed

text \<open>
  C1 (as the code has it): when the query answers with status 200 and a non-empty
  list of usages, the result has exactly the keys of the input map, in its order,
  each with a (possibly empty) list; this holds whenever the function returns, and
  it does return when every usage is a mapping whose \<open>annotatedElement\<close> list holds
  mappings. When the answer is empty or not a list, the result is the empty mapping
  whatever the input map; when the status is not 200, ValueError is raised.
\<close>

theorem annotated_ids_entries:
  "(srv (POST query_url metadatausage_query) = Some resp \<and> status_code resp = 200
      \<and> body resp = Some (JList (item # items)) \<and> list_all usage_well_shaped (item # items)
      \<longrightarrow> (\<exists>results. fst (get_metadatausage_annotatedElement_ids srv query_url md) = Inr results
                      \<and> map fst results = map fst md))
   \<and> (srv (POST query_url metadatausage_query) = Some resp
      \<and> body resp = Some (JList (item # items))
      \<and> fst (get_metadatausage_annotatedElement_ids srv query_url md) = Inr found
      \<longrightarrow> map fst found = map fst md)
   \<and> (srv (POST query_url metadatausage_query) = Some resp \<and> status_code resp = 200
      \<and> body resp = Some j \<and> (\<not> truthy j \<or> \<not> is_list j)
      \<longrightarrow> fst (get_metadatausage_annotatedElement_ids srv query_url md) = Inr [])
   \<and> (srv (POST query_url metadatausage_query) = Some resp \<and> status_code resp \<noteq> 200
      \<longrightarrow> fst (get_metadatausage_annotatedElement_ids srv query_url md) = Inl ValueError)"
proof (intro conjI impI)
  let ?res = "fst (get_metadatausage_annotatedElement_ids srv query_url md)"
  let ?init = "map (\<lambda>entry. (fst entry, [])) md"
  have init: "map fst ?init = map fst md" by (simp add: comp_def)
  show "\<exists>results. ?res = Inr results \<and> map fst results = map fst md"
    if h: "srv (POST query_url metadatausage_query) = Some resp \<and> status_code resp = 200
      \<and> body resp = Some (JList (item # items)) \<and> list_all usage_well_shaped (item # items)"
  proof -
    from h have "list_all usage_well_shaped (item # items)" by simp
    from usages_total [OF this] obtain results where
      r: "fold_err (usage_item md) (item # items) ?init = Inr results" by blast
    from usages_keys [OF r] init have "map fst results = map fst md" by simp
    moreover from h r have "?res = Inr results"
      by (simp add: locator_value del: fold_err.simps)
    ultimately show ?thesis by blast
  qed
  show "map fst found = map fst md"
    if h: "srv (POST query_url metadatausage_query) = Some resp
      \<and> body resp = Some (JList (item # items)) \<and> ?res = Inr found"
  proof -
    from h have post: "srv (POST query_url metadatausage_query) = Some resp"
      and b: "body resp = Some (JList (item # items))" and res: "?res = Inr found"
      by simp_all
    from locator_value [where srv = srv and md = md, OF post] res b
    have "fold_err (usage_item md) (item # items) ?init = Inr found"
      by (simp del: fold_err.simps split: if_splits)
    from usages_keys [OF this] init show ?thesis by simp
  qed
  show "?res = Inr []"
    if "srv (POST query_url metadatausage_query) = Some resp \<and> status_code resp = 200
      \<and> body resp = Some j \<and> (\<not> truthy j \<or> \<not> is_list j)"
    using that by (auto simp: locator_value)
  show "?res = Inl ValueError"
    if "srv (POST query_url metadatausage_query) = Some resp \<and> status_code resp \<noteq> 200"
    using that by (simp add: locator_value)
qed

text \<open>
  C1 as stated fails when the query finds no usage: the answer is the empty list
  and the result is the empty mapping, without the key \<open>Domain1\<close> of the input map.
\<close>

theorem annotated_ids_empty_counterexample:
  "fst (get_metadatausage_annotatedElement_ids (constant_server (JList []))
          ''http://s/projects/p/query-results?commitId=c'' [(''Domain1'', JStr ''md1'')])
   = Inr []"
  by (simp add: locator_value [where resp = "HttpResponse 200 (Some (JList []))"]
        constant_server_def)

text \<open>
  In the model store the usage \<open>mu1\<close> annotates \<open>o1\<close> and the usage \<open>mu2\<close>
  has no \<open>annotatedElement\<close>, so its own identity is collected.
\<close>

theorem annotated_ids_entries_witness:
  "(\<exists>results. fst (get_metadatausage_annotatedElement_ids demo_server
                     ''http://s/projects/p/query-results?commitId=c''
                     [(''Domain1'', JStr ''md1''), (''Other'', JNull)]) = Inr results
              \<and> map fst results = [''Domain1'', ''Other''])
   \<and> fst (get_metadatausage_annotatedElement_ids demo_server
            ''http://s/projects/p/query-results?commitId=c''
            [(''Domain1'', JStr ''md1''), (''Other'', JNull)])
       = Inr [(''Domain1'', [JStr ''o1'', JStr ''mu2'']), (''Other'', [])]
   \<and> fst (get_metadatausage_annotatedElement_ids (constant_server (JObject []))
            ''http://s/projects/p/query-results?commitId=c''
            [(''Domain1'', JStr ''md1''), (''Other'', JNull)]) = Inr []
   \<and> fst (get_metadatausage_annotatedElement_ids error_server
            ''http://s/projects/p/query-results?commitId=c''
            [(''Domain1'', JStr ''md1''), (''Other'', JNull)]) = Inl ValueError"
proof -
  let ?url = "''http://s/projects/p/query-results?commitId=c''"
  let ?md = "[(''Domain1'', JStr ''md1''), (''Other'', JNull)]"
  let ?u1 = "JObject [(''@id'', JStr ''mu1''), (''@type'', JStr ''MetadataUsage''),
                     (''metadataDefinition'', ref ''md1''),
                     (''annotatedElement'', JList [ref ''o1''])]"
  let ?u2 = "JObject [(''@id'', JStr ''mu2''), (''@type'', JStr ''MetadataUsage''),
                     (''metadataDefinition'', ref ''md1'')]"
  have post: "demo_server (POST ?url metadatausage_query) = Some (HttpResponse 200 (Some demo_usages))"
    by (simp add: demo_server_def)
  have usages: "demo_usages = JList (?u1 # [?u2])"
    by (simp add: demo_usages_def)
  have shaped: "list_all usage_well_shaped (?u1 # [?u2])"
    by (simp add: usage_well_shaped_def ref_def)
  have h1: "demo_server (POST ?url metadatausage_query) = Some (HttpResponse 200 (Some demo_usages))
      \<and> status_code (HttpResponse 200 (Some demo_usages)) = 200
      \<and> body (HttpResponse 200 (Some demo_usages)) = Some (JList (?u1 # [?u2]))
      \<and> list_all usage_well_shaped (?u1 # [?u2])"
    using post usages shaped by simp
  have a: "\<exists>results. fst (get_metadatausage_annotatedElement_ids demo_server ?url ?md) = Inr results
              \<and> map fst results = map fst ?md"
    by (rule annotated_ids_entries [where srv = demo_server and query_url = ?url and md = ?md
          and resp = "HttpResponse 200 (Some demo_usages)" and item = ?u1 and items = "[?u2]",
          THEN conjunct1, rule_format, OF h1])
  have b: "fst (get_metadatausage_annotatedElement_ids demo_server ?url ?md)
       = Inr [(''Domain1'', [JStr ''o1'', JStr ''mu2'']), (''Other'', [])]"
    by (simp add: locator_value [where srv = demo_server, OF post] demo_usages_def usage_item_def usage_entry_def
          collect_annotated_def append_to_def py_get_def ref_def)
  have h3: "constant_server (JObject []) (POST ?url metadatausage_query)
        = Some (HttpResponse 200 (Some (JObject [])))
      \<and> status_code (HttpResponse 200 (Some (JObject []))) = 200
      \<and> body (HttpResponse 200 (Some (JObject []))) = Some (JObject [])
      \<and> (\<not> truthy (JObject []) \<or> \<not> is_list (JObject []))"
    by (simp add: constant_server_def)
  have c: "fst (get_metadatausage_annotatedElement_ids (constant_server (JObject [])) ?url ?md)
       = Inr []"
    by (rule annotated_ids_entries [where srv = "constant_server (JObject [])" and query_url = ?url
          and md = ?md and resp = "HttpResponse 200 (Some (JObject []))" and j = "JObject []",
          THEN conjunct2, THEN conjunct2, THEN conjunct1, rule_format, OF h3])
  have h4: "error_server (POST ?url metadatausage_query) = Some (HttpResponse 500 None)
      \<and> status_code (HttpResponse 500 None) \<noteq> 200"
    by (simp add: error_server_def)
  have d: "fst (get_metadatausage_annotatedElement_ids error_server ?url ?md) = Inl ValueError"
    by (rule annotated_ids_entries [where srv = error_server and query_url = ?url
          and md = ?md and resp = "HttpResponse 500 None",
          THEN conjunct2, THEN conjunct2, THEN conjunct2, rule_format, OF h4])
  from a b c d show ?thesis by simp
qed

end
